theory Spec2Isabelle
  imports Complex_Main
begin

section \<open>Python string operations used by the bot\<close>

text \<open>
  Texts are modelled as \<^typ>\<open>string\<close>, whose characters are 8-bit: the code points
  below 256 of a Python \<open>str\<close>. The functions below are \<open>str.split(',')\<close>,
  \<open>str.strip()\<close>, \<open>str.rstrip(c)\<close> and \<open>str.isdigit()\<close> on that range.
\<close>

fun split_str :: "char \<Rightarrow> string \<Rightarrow> string list" where
  "split_str sep [] = [[]]"
| "split_str sep (c # cs) =
     (if c = sep then [] # split_str sep cs
      else (case split_str sep cs of
              [] \<Rightarrow> [[c]]
            | w # ws \<Rightarrow> (c # w) # ws))"

definition is_space :: "char \<Rightarrow> bool" where
  \<comment> \<open>\<open>str.isspace\<close> below code point 256: TAB..CR, FS..US, SPACE, NEL, NBSP\<close>
  "is_space c =
     (let n = (of_char c :: nat)
      in (9 \<le> n \<and> n \<le> 13) \<or> (28 \<le> n \<and> n \<le> 32) \<or> n = 133 \<or> n = 160)"

definition strip :: "string \<Rightarrow> string" where
  "strip s = rev (dropWhile is_space (rev (dropWhile is_space s)))"

definition rstrip :: "char \<Rightarrow> string \<Rightarrow> string" where
  "rstrip c s = rev (dropWhile (\<lambda>x. x = c) (rev s))"

definition is_digit :: "char \<Rightarrow> bool" where
  \<comment> \<open>the ASCII digits: \<open>[0-9]\<close>, and \<open>\<bsol>d\<close> below code point 256\<close>
  "is_digit c = (let n = (of_char c :: nat) in 48 \<le> n \<and> n \<le> 57)"

definition digit_val :: "char \<Rightarrow> nat" where
  "digit_val c = (of_char c :: nat) - 48"

definition digits_val :: "string \<Rightarrow> nat" where
  "digits_val s = foldl (\<lambda>a c. 10 * a + digit_val c) 0 s"

definition is_superscript_digit :: "char \<Rightarrow> bool" where
  \<comment> \<open>U+00B2, U+00B3 and U+00B9: \<open>isdigit()\<close> holds, \<open>int()\<close> refuses them\<close>
  "is_superscript_digit c =
     (let n = (of_char c :: nat) in n = 178 \<or> n = 179 \<or> n = 185)"

definition isdigit :: "string \<Rightarrow> bool" where
  "isdigit s = (s \<noteq> [] \<and> list_all (\<lambda>c. is_digit c \<or> is_superscript_digit c) s)"

text \<open>The list comprehension \<open>[d.strip() for d in text.split(',')]\<close>.\<close>

definition split_strip :: "string \<Rightarrow> string list" where
  "split_strip s = map strip (split_str CHR '','' s)"


section \<open>Times of day\<close>

text \<open>
  \<open>datetime.strptime(s, "%H:%M").time()\<close>. The format compiles to the regular expression
  \<open>(2[0-3]|[0-1]\<bsol>d|\<bsol>d):([0-5]\<bsol>d|\<bsol>d)\<close>, matched at the start of \<open>s\<close>; characters
  left over after the match raise ValueError. The hour field holds no colon, so it is
  the text before the first colon; the minute field is the rest.
\<close>

definition in_range :: "char \<Rightarrow> char \<Rightarrow> char \<Rightarrow> bool" where
  "in_range lo hi c = ((of_char lo :: nat) \<le> of_char c \<and> (of_char c :: nat) \<le> of_char hi)"

definition hour_field :: "string \<Rightarrow> bool" where
  "hour_field h =
     (case h of
        [a] \<Rightarrow> is_digit a
      | [a, b] \<Rightarrow> (a = CHR ''2'' \<and> in_range CHR ''0'' CHR ''3'' b)
                 \<or> (in_range CHR ''0'' CHR ''1'' a \<and> is_digit b)
      | _ \<Rightarrow> False)"

definition minute_field :: "string \<Rightarrow> bool" where
  "minute_field m =
     (case m of
        [a] \<Rightarrow> is_digit a
      | [a, b] \<Rightarrow> in_range CHR ''0'' CHR ''5'' a \<and> is_digit b
      | _ \<Rightarrow> False)"

definition strptime_HM :: "string \<Rightarrow> (nat \<times> nat) option" where
  \<comment> \<open>\<open>None\<close> is ValueError; the result is \<open>(hour, minute)\<close>\<close>
  "strptime_HM s =
     (let h = takeWhile (\<lambda>c. c \<noteq> CHR '':'') s;
          r = dropWhile (\<lambda>c. c \<noteq> CHR '':'') s
      in case r of
           [] \<Rightarrow> None
         | _ # m \<Rightarrow> if hour_field h \<and> minute_field m
                    then Some (digits_val h, digits_val m) else None)"

text \<open>
  \<open>re.match(r"^([0-9]|[01][0-9]|2[0-3]):[0-5][0-9]$", s)\<close> of the input collector;
  \<open>$\<close> also matches before a final newline.
\<close>

definition time_format_exact :: "string \<Rightarrow> bool" where
  "time_format_exact s =
     (let h = takeWhile (\<lambda>c. c \<noteq> CHR '':'') s;
          r = dropWhile (\<lambda>c. c \<noteq> CHR '':'') s
      in case r of
           [_, a, b] \<Rightarrow> hour_field h \<and> in_range CHR ''0'' CHR ''5'' a \<and> is_digit b
         | _ \<Rightarrow> False)"

definition time_format_match :: "string \<Rightarrow> bool" where
  "time_format_match s =
     (time_format_exact s \<or>
      (s \<noteq> [] \<and> last s = CHR 0x0A \<and> time_format_exact (butlast s)))"

text \<open>
  The sweep instant \<open>now_utc\<close> is the number of whole seconds since the epoch; a timezone
  gives the offset from UTC in seconds at that instant. \<open>now_utc.astimezone(tz)\<close> is
  read through its \<open>hour\<close> and \<open>minute\<close> only.
\<close>

definition local_hour :: "int \<Rightarrow> int \<Rightarrow> nat" where
  "local_hour now off = nat (((now + off) div 3600) mod 24)"

definition local_minute :: "int \<Rightarrow> int \<Rightarrow> nat" where
  "local_minute now off = nat (((now + off) div 60) mod 60)"

section \<open>Decimal numerals\<close>

text \<open>
  The builtin \<open>float(s)\<close> is a parameter of the model (field \<open>pyfloat\<close> of the
  environment below; \<open>None\<close> is ValueError). \<open>dec_float\<close> is its restriction to plain
  decimal numerals (surrounding whitespace, a sign, digits with at most one point), which
  is what concrete scenarios use. Exponents, \<open>inf\<close>, \<open>nan\<close> and digit-group underscores, which
  \<open>float\<close> also accepts, are outside \<open>dec_float\<close>.
\<close>

definition unsigned_dec :: "string \<Rightarrow> rat option" where
  "unsigned_dec u =
     (let ip = takeWhile is_digit u; r = dropWhile is_digit u
      in case r of
           [] \<Rightarrow> if ip = [] then None else Some (of_nat (digits_val ip))
         | c # fp \<Rightarrow>
             if c = CHR ''.'' \<and> list_all is_digit fp \<and> (ip \<noteq> [] \<or> fp \<noteq> [])
             then Some (of_nat (digits_val ip) + of_nat (digits_val fp) / 10 ^ length fp)
             else None)"

definition dec_float :: "string \<Rightarrow> rat option" where
  "dec_float s =
     (case strip s of
        [] \<Rightarrow> None
      | c # u \<Rightarrow>
          if c = CHR ''-'' then map_option uminus (unsigned_dec u)
          else if c = CHR ''+'' then unsigned_dec u
          else unsigned_dec (c # u))"


section \<open>Data model\<close>

datatype exn =
    StoreError | TransportError | ValueError | TypeError | AttributeError
  | UnknownTimeZoneError

text \<open>
  A call either returns, or raises an exception; in both cases the persistent state
  reached so far stays.
\<close>

datatype 'a outcome = Done 'a | Raised exn 'a

fun state_of :: "'a outcome \<Rightarrow> 'a" where
  "state_of (Done s) = s"
| "state_of (Raised e s) = s"

fun and_then :: "'a outcome \<Rightarrow> ('a \<Rightarrow> 'a outcome) \<Rightarrow> 'a outcome" where
  "and_then (Done s) f = f s"
| "and_then (Raised e s) f = Raised e s"

text \<open>
  A row of table \<open>medicines\<close>. The handler that creates rows reads \<open>name\<close>,
  \<open>dosage_unit\<close> and \<open>doses_quantity\<close> with \<open>data.get\<close>, so these columns, and
  \<open>remaining_quantity\<close> with them, can hold NULL (\<open>None\<close>). Quantities are exact
  rationals here; SQLite computes \<open>remaining_quantity - ?\<close> in doubles.
\<close>

record medicine =
  medicine_id :: nat
  user_id :: int
  name :: "string option"
  dosage :: string
  dosage_unit :: "string option"
  doses_quantity :: "nat option"
  reminder_time :: string
  remaining_quantity :: "rat option"

text \<open>
  The texts sent to users, by template; the Russian literals of the source are
  the constructors, the interpolated values their arguments.
\<close>

datatype msg =
    ReminderMsg string "string option" "string option"
      \<comment> \<open>bot.py:44, \<open>dosage_str\<close>, \<open>unit_text\<close>, \<open>medicine_name\<close>\<close>
  | RanOutMsg "string option"
      \<comment> \<open>bot.py:60, \<open>medicine_name\<close>\<close>
  | AskDosageMsg
  | OnlyNumbersMsg
  | ChooseUnitMsg
  | AskQuantityMsg
  | NeedIntegerMsg
  | AskTimesMsg
  | BadTimeFormatMsg string
  | CountMismatchMsg
  | AddedMsg "string option" string "string option" string

datatype log_entry =
    InfoSending int "string option" string "string option"
  | InfoSent int
  | WarnUnparsedDosage string nat
  | InfoAlreadyEmpty "string option" nat
  | ErrorSending int exn
  | InfoSchedulerStart
  | InfoCheck int nat
  | InfoDue int "string option" "nat \<times> nat" string "string option"
  | WarnNoTimezone int "string option"

text \<open>
  The persistent store (tables \<open>users\<close> and \<open>medicines\<close>, and the AUTOINCREMENT
  counter), the messages delivered so far, and the log.
\<close>

record world =
  users :: "(int \<times> string) list"
  medicines :: "medicine list"
  last_medicine_id :: nat
  outbox :: "(int \<times> msg) list"
  journal :: "log_entry list"

text \<open>
  What lies outside the repository: whether the transport delivers a message, whether a
  store call goes through (otherwise it raises), \<open>float\<close>, and the timezone database
  (\<open>pytz.timezone(name)\<close> raises UnknownTimeZoneError where \<open>utcoffset\<close> is \<open>None\<close>).
  The flag of \<open>GetMedicineById\<close> tells the re-fetch after the decrement (bot.py:58)
  from the first fetch (bot.py:47).
\<close>

datatype store_op =
    GetUserTimezone int
  | AddMedicine int
  | GetAllMedicines
  | DecrementQuantity nat
  | GetMedicineById bool nat
  | DeleteMedicine nat
  | DeleteByNameAndUser int

record env =
  send_ok :: "int \<Rightarrow> msg \<Rightarrow> bool"
  store_ok :: "store_op \<Rightarrow> bool"
  pyfloat :: "string \<Rightarrow> rat option"
  utcoffset :: "string \<Rightarrow> int \<Rightarrow> int option"

definition add_log :: "log_entry \<Rightarrow> world \<Rightarrow> world" where
  "add_log e st = st\<lparr>journal := journal st @ [e]\<rparr>"

definition send_message :: "env \<Rightarrow> int \<Rightarrow> msg \<Rightarrow> world \<Rightarrow> world outcome" where
  "send_message env chat_id m st =
     (if send_ok env chat_id m then Done (st\<lparr>outbox := outbox st @ [(chat_id, m)]\<rparr>)
      else Raised TransportError st)"

section \<open>database.py\<close>

definition get_user_timezone :: "env \<Rightarrow> int \<Rightarrow> world \<Rightarrow> exn + string option" where
  "get_user_timezone env uid st =
     (if store_ok env (GetUserTimezone uid) then Inr (map_of (users st) uid)
      else Inl StoreError)"

definition add_medicine ::
  "env \<Rightarrow> int \<Rightarrow> string option \<Rightarrow> string \<Rightarrow> string option \<Rightarrow> nat option \<Rightarrow> string
     \<Rightarrow> world \<Rightarrow> world outcome" where
  "add_medicine env uid nm dos unit quantity reminder_times st =
     (if store_ok env (AddMedicine uid)
      then Done (st\<lparr>medicines := medicines st @
                   [\<lparr>medicine_id = Suc (last_medicine_id st), user_id = uid, name = nm,
                     dosage = dos, dosage_unit = unit, doses_quantity = quantity,
                     reminder_time = reminder_times,
                     remaining_quantity = map_option of_nat quantity\<rparr>],
                 last_medicine_id := Suc (last_medicine_id st)\<rparr>)
      else Raised StoreError st)"

definition get_all_medicines_with_time :: "env \<Rightarrow> world \<Rightarrow> exn + medicine list" where
  "get_all_medicines_with_time env st =
     (if store_ok env GetAllMedicines then Inr (medicines st) else Inl StoreError)"

definition decrement_medicine_quantity :: "env \<Rightarrow> nat \<Rightarrow> rat \<Rightarrow> world \<Rightarrow> world outcome" where
  "decrement_medicine_quantity env mid dosage_to_decrement st =
     (if store_ok env (DecrementQuantity mid)
      then Done (st\<lparr>medicines :=
             map (\<lambda>m. if medicine_id m = mid
                       then m\<lparr>remaining_quantity :=
                                map_option (\<lambda>q. q - dosage_to_decrement) (remaining_quantity m)\<rparr>
                       else m) (medicines st)\<rparr>)
      else Raised StoreError st)"

definition get_medicine_by_id :: "env \<Rightarrow> bool \<Rightarrow> nat \<Rightarrow> world \<Rightarrow> exn + medicine option" where
  "get_medicine_by_id env again mid st =
     (if store_ok env (GetMedicineById again mid)
      then Inr (find (\<lambda>m. medicine_id m = mid) (medicines st))
      else Inl StoreError)"

definition delete_medicine :: "env \<Rightarrow> nat \<Rightarrow> world \<Rightarrow> world outcome" where
  "delete_medicine env mid st =
     (if store_ok env (DeleteMedicine mid)
      then Done (st\<lparr>medicines := filter (\<lambda>m. medicine_id m \<noteq> mid) (medicines st)\<rparr>)
      else Raised StoreError st)"

definition delete_medicine_by_name_and_user :: "env \<Rightarrow> int \<Rightarrow> string \<Rightarrow> world \<Rightarrow> world outcome" where
  "delete_medicine_by_name_and_user env uid medicine_name st =
     (if store_ok env (DeleteByNameAndUser uid)
      then Done (st\<lparr>medicines :=
             filter (\<lambda>m. \<not> (user_id m = uid \<and> name m = Some medicine_name)) (medicines st)\<rparr>)
      else Raised StoreError st)"


section \<open>bot.py: the dispatch and depletion engine\<close>

definition dosage_str_of :: "string \<Rightarrow> string" where
  \<comment> \<open>bot.py:40\<close>
  "dosage_str_of medicine_dosage =
     (if CHR ''.'' \<in> set medicine_dosage
      then rstrip CHR ''.'' (rstrip CHR ''0'' medicine_dosage)
      else medicine_dosage)"

definition check_finished :: "env \<Rightarrow> int \<Rightarrow> nat \<Rightarrow> string option \<Rightarrow> world \<Rightarrow> world outcome" where
  \<comment> \<open>bot.py:58-61, the re-fetch after the decrement\<close>
  "check_finished env uid mid medicine_name st =
     (case get_medicine_by_id env True mid st of
        Inl e \<Rightarrow> Raised e st
      | Inr None \<Rightarrow> Done st
      | Inr (Some updated_medicine_info) \<Rightarrow>
          (case remaining_quantity updated_medicine_info of
             None \<Rightarrow> Raised TypeError st
           | Some q \<Rightarrow>
               if q \<le> 0
               then and_then (send_message env uid (RanOutMsg medicine_name) st)
                      (delete_medicine env mid)
               else Done st))"

definition update_remaining ::
  "env \<Rightarrow> int \<Rightarrow> nat \<Rightarrow> string option \<Rightarrow> string \<Rightarrow> world \<Rightarrow> world outcome" where
  \<comment> \<open>bot.py:47-63\<close>
  "update_remaining env uid mid medicine_name medicine_dosage st =
     (case get_medicine_by_id env False mid st of
        Inl e \<Rightarrow> Raised e st
      | Inr None \<Rightarrow> Done st
      | Inr (Some medicine_info) \<Rightarrow>
          (case remaining_quantity medicine_info of
             None \<Rightarrow> Raised TypeError st
           | Some current_remaining_quantity \<Rightarrow>
               if current_remaining_quantity > 0
               then (case pyfloat env medicine_dosage of
                       Some dosage_val \<Rightarrow>
                         and_then (decrement_medicine_quantity env mid dosage_val st)
                           (check_finished env uid mid medicine_name)
                     | None \<Rightarrow>
                         and_then (decrement_medicine_quantity env mid 1
                                     (add_log (WarnUnparsedDosage medicine_dosage mid) st))
                           (check_finished env uid mid medicine_name))
               else if current_remaining_quantity \<le> 0
               then Done (add_log (InfoAlreadyEmpty medicine_name mid) st)
               else Done st))"

definition send_reminder_try ::
  "env \<Rightarrow> int \<Rightarrow> nat \<Rightarrow> string option \<Rightarrow> string \<Rightarrow> string option \<Rightarrow> world \<Rightarrow> world outcome" where
  \<comment> \<open>bot.py:40-63, the body of the \<open>try\<close>\<close>
  "send_reminder_try env uid mid medicine_name medicine_dosage medicine_dosage_unit st =
     (let dosage_str = dosage_str_of medicine_dosage
      in case pyfloat env medicine_dosage of
           None \<Rightarrow> Raised ValueError st
         | Some dosage_value \<Rightarrow>
             and_then (send_message env uid
                         (ReminderMsg dosage_str medicine_dosage_unit medicine_name) st)
               (\<lambda>st. update_remaining env uid mid medicine_name medicine_dosage
                        (add_log (InfoSent uid) st)))"

definition send_reminder ::
  "env \<Rightarrow> int \<Rightarrow> nat \<Rightarrow> string option \<Rightarrow> string \<Rightarrow> string option \<Rightarrow> world \<Rightarrow> world" where
  \<comment> \<open>\<open>except Exception\<close> logs the error; nothing is raised to the caller\<close>
  "send_reminder env uid mid medicine_name medicine_dosage medicine_dosage_unit st =
     (case send_reminder_try env uid mid medicine_name medicine_dosage medicine_dosage_unit
             (add_log (InfoSending uid medicine_name medicine_dosage medicine_dosage_unit) st) of
        Done st' \<Rightarrow> st'
      | Raised e st' \<Rightarrow> add_log (ErrorSending uid e) st')"

section \<open>bot.py: the reminder matcher and the scheduler loop\<close>

fun reminder_times_of :: "string list \<Rightarrow> (nat \<times> nat) list option" where
  \<comment> \<open>the comprehension of bot.py:83 over the split list; \<open>None\<close> when a \<open>strptime\<close> raises\<close>
  "reminder_times_of [] = Some []"
| "reminder_times_of (rt # rts) =
     (case strptime_HM (strip rt) of
        None \<Rightarrow> None
      | Some t \<Rightarrow> map_option ((#) t) (reminder_times_of rts))"

definition not_specified :: string where
  \<comment> \<open>the literal of bot.py:89, transliterated\<close>
  "not_specified = ''ne ukazana''"

definition dose_to_send :: "string list \<Rightarrow> nat \<Rightarrow> string" where
  "dose_to_send dosages index =
     (if index < length dosages then dosages ! index
      else if dosages \<noteq> [] then last dosages
      else not_specified)"

text \<open>
  The due events of one record at local time \<open>(hour, minute)\<close>: the indices for which
  the test of bot.py:88 holds, each with the dose chosen at bot.py:89.
\<close>

definition due_events :: "nat \<times> nat \<Rightarrow> string list \<Rightarrow> (nat \<times> nat) list \<Rightarrow> (nat \<times> string) list" where
  "due_events now_user_tz dosages reminder_times =
     map (\<lambda>(index, rt). (index, dose_to_send dosages index))
       (filter (\<lambda>(index, rt).
                  fst now_user_tz = fst rt \<and> snd now_user_tz = snd rt)
          (enumerate 0 reminder_times))"

fun remind_loop ::
  "env \<Rightarrow> nat \<times> nat \<Rightarrow> medicine \<Rightarrow> string list \<Rightarrow> (nat \<times> nat \<times> nat) list \<Rightarrow> world \<Rightarrow> world" where
  \<comment> \<open>bot.py:87-91\<close>
  "remind_loop env now_user_tz m dosages [] st = st"
| "remind_loop env now_user_tz m dosages ((index, rt) # rest) st =
     (if fst now_user_tz = fst rt \<and> snd now_user_tz = snd rt
      then remind_loop env now_user_tz m dosages rest
             (send_reminder env (user_id m) (medicine_id m) (name m)
                (dose_to_send dosages index) (dosage_unit m)
                (add_log (InfoDue (user_id m) (name m) rt
                            (dose_to_send dosages index) (dosage_unit m)) st))
      else remind_loop env now_user_tz m dosages rest st)"

definition check_medicine :: "env \<Rightarrow> int \<Rightarrow> medicine \<Rightarrow> world \<Rightarrow> world outcome" where
  \<comment> \<open>bot.py:80-93, the body of the loop over the snapshot\<close>
  "check_medicine env now_utc m st =
     (case get_user_timezone env (user_id m) st of
        Inl e \<Rightarrow> Raised e st
      | Inr None \<Rightarrow> Done (add_log (WarnNoTimezone (user_id m) (name m)) st)
      | Inr (Some user_timezone_str) \<Rightarrow>
          (if user_timezone_str = []
           then Done (add_log (WarnNoTimezone (user_id m) (name m)) st)
           else (case utcoffset env user_timezone_str now_utc of
                   None \<Rightarrow> Raised UnknownTimeZoneError st
                 | Some off \<Rightarrow>
                     (case reminder_times_of (split_str CHR '','' (reminder_time m)) of
                        None \<Rightarrow> Raised ValueError st
                      | Some reminder_times \<Rightarrow>
                          Done (remind_loop env
                                  (local_hour now_utc off, local_minute now_utc off) m
                                  (split_strip (dosage m))
                                  (enumerate 0 reminder_times) st)))))"

fun check_all :: "env \<Rightarrow> int \<Rightarrow> medicine list \<Rightarrow> world \<Rightarrow> world outcome" where
  "check_all env now_utc [] st = Done st"
| "check_all env now_utc (m # ms) st =
     and_then (check_medicine env now_utc m st) (check_all env now_utc ms)"

definition sweep :: "env \<Rightarrow> int \<Rightarrow> world \<Rightarrow> world outcome" where
  \<comment> \<open>bot.py:75-93, one pass of the \<open>while True\<close> body\<close>
  "sweep env now_utc st =
     (case get_all_medicines_with_time env st of
        Inl e \<Rightarrow> Raised e st
      | Inr meds \<Rightarrow> check_all env now_utc meds (add_log (InfoCheck now_utc (length meds)) st))"

text \<open>
  The loop of \<open>scheduler_setup\<close> never returns: it runs until a sweep raises. Its runs
  are modelled by their finite prefixes: the list gives, for each pass, the state of the
  outside world and the clock reading; \<open>Done\<close> means that every pass of the prefix
  returned and the loop sleeps before the next one, \<open>Raised\<close> that the loop has ended.
\<close>

fun scheduler_loop :: "(env \<times> int) list \<Rightarrow> world \<Rightarrow> world outcome" where
  "scheduler_loop [] st = Done st"
| "scheduler_loop ((env, now_utc) # rest) st =
     and_then (sweep env now_utc st) (scheduler_loop rest)"

definition scheduler_setup :: "(env \<times> int) list \<Rightarrow> world \<Rightarrow> world outcome" where
  "scheduler_setup passes st = scheduler_loop passes (add_log InfoSchedulerStart st)"


section \<open>handlers.py: the input collector for a new medicine\<close>

datatype fsm_state =
    WAITING_FOR_LOCATION
  | WAITING_FOR_NAME
  | WAITING_FOR_DOSAGE
  | WAITING_FOR_DOSAGE_UNIT
  | WAITING_FOR_QUANTITY
  | WAITING_FOR_TIMES
  | WAITING_FOR_MEDICINE_NAME_TO_DELETE

text \<open>
  The FSM context of one chat: the current state and the data dictionary, whose keys
  are the five that the handlers write. \<open>state.clear()\<close> empties both. The handlers
  are modelled on text messages (\<open>message.text\<close> is a \<open>str\<close>); which handler receives a
  message is decided by the filters of the router, outside the handler bodies.
\<close>

record chat =
  cur_state :: "fsm_state option"
  medicine_name :: "string option"
  medicine_dosage :: "string option"
  medicine_dosage_unit :: "string option"
  medicine_quantity :: "nat option"
  medicine_time :: "string option"

definition clear :: "chat \<Rightarrow> chat" where
  "clear c = \<lparr>cur_state = None, medicine_name = None, medicine_dosage = None,
              medicine_dosage_unit = None, medicine_quantity = None, medicine_time = None\<rparr>"

definition answer :: "env \<Rightarrow> int \<Rightarrow> msg \<Rightarrow> chat \<Rightarrow> world \<Rightarrow> (chat \<times> world) outcome" where
  "answer env uid m c st =
     (case send_message env uid m st of
        Done st' \<Rightarrow> Done (c, st')
      | Raised e st' \<Rightarrow> Raised e (c, st'))"

definition get_medicine_name :: "env \<Rightarrow> int \<Rightarrow> string \<Rightarrow> chat \<times> world \<Rightarrow> (chat \<times> world) outcome" where
  "get_medicine_name env uid txt cw =
     (case cw of (c, st) \<Rightarrow>
        answer env uid AskDosageMsg
          (c\<lparr>medicine_name := Some txt, cur_state := Some WAITING_FOR_DOSAGE\<rparr>) st)"

fun all_floats :: "env \<Rightarrow> string list \<Rightarrow> bool" where
  \<comment> \<open>handlers.py:148-153: no \<open>float(dosage)\<close> raises ValueError\<close>
  "all_floats env [] = True"
| "all_floats env (d # ds) =
     (case pyfloat env d of None \<Rightarrow> False | Some v \<Rightarrow> all_floats env ds)"

definition get_medicine_dosage :: "env \<Rightarrow> int \<Rightarrow> string \<Rightarrow> chat \<times> world \<Rightarrow> (chat \<times> world) outcome" where
  "get_medicine_dosage env uid dosages_text cw =
     (case cw of (c, st) \<Rightarrow>
        if \<not> all_floats env (split_strip dosages_text)
        then answer env uid OnlyNumbersMsg c st
        else answer env uid ChooseUnitMsg
               (c\<lparr>medicine_dosage := Some dosages_text,
                  cur_state := Some WAITING_FOR_DOSAGE_UNIT\<rparr>) st)"

definition get_dosage_unit :: "env \<Rightarrow> int \<Rightarrow> string \<Rightarrow> chat \<times> world \<Rightarrow> (chat \<times> world) outcome" where
  \<comment> \<open>reached only with one of the three unit buttons' texts (the filter of handlers.py:170)\<close>
  "get_dosage_unit env uid txt cw =
     (case cw of (c, st) \<Rightarrow>
        answer env uid AskQuantityMsg
          (c\<lparr>medicine_dosage_unit := Some txt, cur_state := Some WAITING_FOR_QUANTITY\<rparr>) st)"

definition get_medicine_quantity :: "env \<Rightarrow> int \<Rightarrow> string \<Rightarrow> chat \<times> world \<Rightarrow> (chat \<times> world) outcome" where
  \<comment> \<open>\<open>int(message.text)\<close> raises ValueError on a superscript digit\<close>
  "get_medicine_quantity env uid txt cw =
     (case cw of (c, st) \<Rightarrow>
        if \<not> isdigit txt then answer env uid NeedIntegerMsg c st
        else if \<not> list_all is_digit txt then Raised ValueError (c, st)
        else answer env uid AskTimesMsg
               (c\<lparr>medicine_quantity := Some (digits_val txt),
                  cur_state := Some WAITING_FOR_TIMES\<rparr>) st)"

fun first_bad_time :: "string list \<Rightarrow> string option" where
  \<comment> \<open>handlers.py:225-228: the first time that does not match \<open>time_format\<close>\<close>
  "first_bad_time [] = None"
| "first_bad_time (time_str # rest) =
     (if \<not> time_format_match time_str then Some time_str else first_bad_time rest)"

definition get_medicine_time :: "env \<Rightarrow> int \<Rightarrow> string \<Rightarrow> chat \<times> world \<Rightarrow> (chat \<times> world) outcome" where
  "get_medicine_time env uid times_text cw =
     (case cw of (c, st) \<Rightarrow>
        (case first_bad_time (split_strip times_text) of
           Some time_str \<Rightarrow> answer env uid (BadTimeFormatMsg time_str) c st
         | None \<Rightarrow>
             (let c = c\<lparr>medicine_time := Some times_text\<rparr>
              in case medicine_dosage c of
                   None \<Rightarrow> Raised AttributeError (c, st)
                 | Some dos \<Rightarrow>
                     if length (split_strip dos) \<noteq> length (split_strip times_text)
                     then answer env uid CountMismatchMsg c st
                     else (case add_medicine env uid (medicine_name c) dos
                                  (medicine_dosage_unit c) (medicine_quantity c) times_text st of
                             Raised e st' \<Rightarrow> Raised e (c, st')
                           | Done st' \<Rightarrow>
                               (case answer env uid
                                       (AddedMsg (medicine_name c) dos (medicine_dosage_unit c)
                                          times_text) c st' of
                                  Raised e cw' \<Rightarrow> Raised e cw'
                                | Done (c', st'') \<Rightarrow> Done (clear c', st''))))))"


section \<open>Notions used in the statements\<close>

text \<open>
  The identifier of a record with its owner and its two lists, as stored.
  \<open>kept st st'\<close>: from \<open>st\<close> to \<open>st'\<close> the table of users and the identifier counter
  are the same, and every record of \<open>st'\<close> is a record of \<open>st\<close> with the same owner
  and the same two lists. \<open>outbox_grows st st'\<close>: the messages sent up to \<open>st\<close> are
  the first ones of those sent up to \<open>st'\<close>.
\<close>

definition schedule_of :: "medicine \<Rightarrow> nat \<times> int \<times> string \<times> string" where
  "schedule_of m = (medicine_id m, user_id m, dosage m, reminder_time m)"

definition kept :: "world \<Rightarrow> world \<Rightarrow> bool" where
  "kept st st' =
     (users st' = users st \<and> last_medicine_id st' = last_medicine_id st \<and>
      schedule_of ` set (medicines st') \<subseteq> schedule_of ` set (medicines st))"

definition outbox_grows :: "world \<Rightarrow> world \<Rightarrow> bool" where
  "outbox_grows st st' = (\<exists>ms. outbox st' = outbox st @ ms)"

text \<open>
  What the loop of bot.py:87-91 does for one due event \<open>(index, dose)\<close> at local time
  \<open>now_user_tz\<close>: the log line of bot.py:90, then \<open>send_reminder\<close>.
\<close>

definition fire :: "env \<Rightarrow> medicine \<Rightarrow> nat \<times> nat \<Rightarrow> world \<Rightarrow> nat \<times> string \<Rightarrow> world" where
  "fire env m now_user_tz st ev =
     send_reminder env (user_id m) (medicine_id m) (name m) (snd ev) (dosage_unit m)
       (add_log (InfoDue (user_id m) (name m) now_user_tz (snd ev) (dosage_unit m)) st)"

text \<open>
  The log lines that a sweep writes without any due event: the line of bot.py:77 and
  the warning of bot.py:93.
\<close>

fun quiet :: "log_entry \<Rightarrow> bool" where
  "quiet (InfoCheck now n) = True"
| "quiet (WarnNoTimezone uid nm) = True"
| "quiet e = False"

text \<open>
  The calls of the sweep outside \<open>send_reminder\<close> go through: the store lists the
  medicines and answers the timezone lookups, the timezone database knows the stored
  timezones, and the stored reminder times are times of day.
\<close>

definition matching_works :: "env \<Rightarrow> int \<Rightarrow> world \<Rightarrow> bool" where
  "matching_works env now st =
     (store_ok env GetAllMedicines
      \<and> (\<forall>m\<in>set (medicines st). store_ok env (GetUserTimezone (user_id m)))
      \<and> (\<forall>tz\<in>snd ` set (users st). tz \<noteq> [] \<longrightarrow> utcoffset env tz now \<noteq> None)
      \<and> (\<forall>m\<in>set (medicines st).
            reminder_times_of (split_str CHR '','' (reminder_time m)) \<noteq> None))"

text \<open>
  Every record has as many doses as reminder times, both counted as the matcher counts
  them.
\<close>

definition lists_agree :: "world \<Rightarrow> bool" where
  "lists_agree st =
     (\<forall>m\<in>set (medicines st).
        length (split_strip (dosage m)) = length (split_strip (reminder_time m)))"

text \<open>
  The dose text that the chat holds, if any, went through the check of
  \<open>get_medicine_dosage\<close>.
\<close>

definition dosage_valid :: "env \<Rightarrow> chat \<Rightarrow> bool" where
  "dosage_valid env c =
     (case medicine_dosage c of None \<Rightarrow> True | Some d \<Rightarrow> all_floats env (split_strip d))"




section \<open>Scenarios\<close>

text \<open>
  An outside world in which everything works, with plain decimal doses and one known
  timezone three hours east of UTC; and a store with one user there and one medicine,
  two doses left, due at 08:00 local time. The instant 18000 is 05:00 UTC of the first
  day, 104400 is 05:00 UTC of the next. The unit \<open>ml\<close> stands for the third unit
  button of handlers.py:161, whose text is Cyrillic.
\<close>

definition moscow_env :: env where
  "moscow_env =
     \<lparr>send_ok = (\<lambda>uid m. True), store_ok = (\<lambda>op. True), pyfloat = dec_float,
      utcoffset = (\<lambda>tz now. if tz = ''Europe/Moscow'' then Some 10800 else None)\<rparr>"

definition aspirin :: medicine where
  "aspirin =
     \<lparr>medicine_id = 1, user_id = 7, name = Some ''Aspirin'', dosage = ''1'',
      dosage_unit = Some ''ml'', doses_quantity = Some 2, reminder_time = ''08:00'',
      remaining_quantity = Some 2\<rparr>"

definition aspirin_world :: world where
  "aspirin_world =
     \<lparr>users = [(7, ''Europe/Moscow'')], medicines = [aspirin], last_medicine_id = 1,
      outbox = [], journal = []\<rparr>"

text \<open>
  The same store with one dose left, with none left, without the user's timezone, and
  without medicines.
\<close>

definition last_dose_world :: world where
  "last_dose_world = aspirin_world\<lparr>medicines := [aspirin\<lparr>remaining_quantity := Some 1\<rparr>]\<rparr>"

definition exhausted_world :: world where
  "exhausted_world = aspirin_world\<lparr>medicines := [aspirin\<lparr>remaining_quantity := Some 0\<rparr>]\<rparr>"


definition stranger_world :: world where
  "stranger_world = aspirin_world\<lparr>users := []\<rparr>"

definition empty_store :: world where
  "empty_store = aspirin_world\<lparr>medicines := [], last_medicine_id := 0\<rparr>"

text \<open>
  Outside worlds with a failure: the transport delivers nothing; the transport loses
  the depletion warning only; the store is down; the store fails on timezone lookups
  only; the store fails on every call made while an event is dispatched.
\<close>

definition transport_down_env :: env where
  "transport_down_env = moscow_env\<lparr>send_ok := (\<lambda>uid m. False)\<rparr>"

definition ranout_lost_env :: env where
  "ranout_lost_env =
     moscow_env\<lparr>send_ok := (\<lambda>uid m. case m of RanOutMsg nm \<Rightarrow> False | _ \<Rightarrow> True)\<rparr>"

definition store_down_env :: env where
  "store_down_env = moscow_env\<lparr>store_ok := (\<lambda>op. False)\<rparr>"

definition timezone_lookup_down_env :: env where
  "timezone_lookup_down_env =
     moscow_env\<lparr>store_ok := (\<lambda>op. case op of GetUserTimezone uid \<Rightarrow> False | _ \<Rightarrow> True)\<rparr>"

definition dispatch_store_down_env :: env where
  "dispatch_store_down_env =
     moscow_env\<lparr>store_ok := (\<lambda>op. case op of GetAllMedicines \<Rightarrow> True
                                        | GetUserTimezone uid \<Rightarrow> True | _ \<Rightarrow> False)\<rparr>"

text \<open>
  A chat that has just received \<open>/add\<close>; a chat that has answered everything but the
  times; and the dialogue of one new medicine: the five answers of the user, each
  given to the handler of the state that the chat is in when every answer before it
  was accepted.
\<close>

definition new_chat :: chat where
  "new_chat =
     \<lparr>cur_state = Some WAITING_FOR_NAME, medicine_name = None, medicine_dosage = None,
      medicine_dosage_unit = None, medicine_quantity = None, medicine_time = None\<rparr>"

definition times_chat :: chat where
  "times_chat =
     \<lparr>cur_state = Some WAITING_FOR_TIMES, medicine_name = Some ''Aspirin'',
      medicine_dosage = Some ''1, 0.5'', medicine_dosage_unit = Some ''ml'',
      medicine_quantity = Some 10, medicine_time = None\<rparr>"

definition add_dialogue ::
  "env \<Rightarrow> int \<Rightarrow> string \<Rightarrow> string \<Rightarrow> string \<Rightarrow> string \<Rightarrow> string \<Rightarrow> chat \<times> world
     \<Rightarrow> (chat \<times> world) outcome" where
  "add_dialogue env uid nm dos unit quantity tms cw =
     and_then (and_then (and_then (and_then
       (get_medicine_name env uid nm cw)
       (get_medicine_dosage env uid dos))
       (get_dosage_unit env uid unit))
       (get_medicine_quantity env uid quantity))
       (get_medicine_time env uid tms)"

section \<open>What the core operations keep\<close>

lemma kept_refl: "kept st st"
  by (simp add: kept_def)

lemma kept_trans: "kept a b \<Longrightarrow> kept b c \<Longrightarrow> kept a c"
  unfolding kept_def by (elim conjE, intro conjI) (simp, simp, erule subset_trans, assumption)

lemma kept_add_log: "kept st (add_log e st)"
  by (simp add: kept_def add_log_def)

lemma kept_and_then:
  assumes "kept st (state_of r)" and "\<And>s. kept s (state_of (f s))"
  shows "kept st (state_of (and_then r f))"
proof (cases r)
  case (Done s)
  have "kept st s" using assms(1) Done by simp
  from kept_trans[OF this assms(2)[of s]] show ?thesis using Done by simp
next
  case (Raised e s)
  with assms(1) show ?thesis by simp
qed

lemma kept_send_message: "kept st (state_of (send_message env uid m st))"
  by (simp add: send_message_def kept_def)

lemma kept_decrement: "kept st (state_of (decrement_medicine_quantity env mid v st))"
  by (auto simp: decrement_medicine_quantity_def kept_def schedule_of_def image_iff)

lemma kept_delete: "kept st (state_of (delete_medicine env mid st))"
  by (auto simp: delete_medicine_def kept_def)

lemma kept_check_finished: "kept st (state_of (check_finished env uid mid nm st))"
proof -
  have "kept st (state_of (and_then (send_message env uid (RanOutMsg nm) st) (delete_medicine env mid)))"
    by (rule kept_and_then[OF kept_send_message kept_delete])
  then show ?thesis
    unfolding check_finished_def
    by (simp add: kept_refl split: sum.splits option.splits)
qed


lemma kept_update_remaining: "kept st (state_of (update_remaining env uid mid nm d st))"
proof -
  have a: "kept st (state_of (and_then (decrement_medicine_quantity env mid v st)
                      (check_finished env uid mid nm)))" for v
    by (rule kept_and_then[OF kept_decrement kept_check_finished])
  have b: "kept st (state_of (and_then (decrement_medicine_quantity env mid v (add_log e st))
                      (check_finished env uid mid nm)))" for v e
    by (rule kept_trans[OF kept_add_log kept_and_then[OF kept_decrement kept_check_finished]])
  show ?thesis
    unfolding update_remaining_def
    by (simp add: kept_refl kept_add_log a b split: sum.splits option.splits)
qed

lemma kept_send_reminder_try: "kept st (state_of (send_reminder_try env uid mid nm d unit st))"
proof -
  have "kept s (state_of (update_remaining env uid mid nm d (add_log (InfoSent uid) s)))" for s
    by (rule kept_trans[OF kept_add_log kept_update_remaining])
  then have "kept st (state_of (and_then (send_message env uid m st)
                (\<lambda>st. update_remaining env uid mid nm d (add_log (InfoSent uid) st))))" for m
    by (rule kept_and_then[OF kept_send_message])
  then show ?thesis
    unfolding send_reminder_try_def Let_def
    by (simp add: kept_refl split: option.splits)
qed

lemma kept_send_reminder: "kept st (send_reminder env uid mid nm d unit st)"
proof -
  let ?s = "add_log (InfoSending uid nm d unit) st"
  have a: "kept st (state_of (send_reminder_try env uid mid nm d unit ?s))"
    by (rule kept_trans[OF kept_add_log kept_send_reminder_try])
  show ?thesis
  proof (cases "send_reminder_try env uid mid nm d unit ?s")
    case (Done s)
    then show ?thesis using a by (simp add: send_reminder_def)
  next
    case (Raised e s)
    then have "kept st s" using a by simp
    from kept_trans[OF this kept_add_log] show ?thesis
      using Raised by (simp add: send_reminder_def)
  qed
qed

lemma kept_remind_loop: "kept st (remind_loop env hm m ds ts st)"
proof (induction ts arbitrary: st)
  case Nil
  show ?case by (simp add: kept_refl)
next
  case (Cons t ts)
  obtain i rt where t: "t = (i, rt)" by (cases t)
  have "kept st (remind_loop env hm m ds ts (send_reminder env uid mid nm d unit (add_log e st)))"
    for uid mid nm d unit e
    by (rule kept_trans[OF kept_add_log kept_trans[OF kept_send_reminder Cons.IH]])
  then show ?case
    unfolding t by (simp add: Cons.IH)
qed

lemma kept_check_medicine: "kept st (state_of (check_medicine env now m st))"
  unfolding check_medicine_def
  by (simp add: kept_refl kept_add_log kept_remind_loop split: sum.splits option.splits)

lemma kept_check_all: "kept st (state_of (check_all env now ms st))"
proof (induction ms arbitrary: st)
  case Nil
  show ?case by (simp add: kept_refl)
next
  case (Cons m ms)
  show ?case
    by (simp, rule kept_and_then[OF kept_check_medicine Cons.IH])
qed

lemma kept_sweep: "kept st (state_of (sweep env now st))"
  unfolding sweep_def
  by (simp add: kept_refl kept_trans[OF kept_add_log kept_check_all] split: sum.splits)

lemma kept_scheduler_loop: "kept st (state_of (scheduler_loop passes st))"
proof (induction passes arbitrary: st)
  case Nil
  show ?case by (simp add: kept_refl)
next
  case (Cons p ps)
  obtain env now where p: "p = (env, now)" by (cases p)
  show ?case
    unfolding p by (simp, rule kept_and_then[OF kept_sweep Cons.IH])
qed

lemma kept_scheduler_setup: "kept st (state_of (scheduler_setup passes st))"
  unfolding scheduler_setup_def
  by (rule kept_trans[OF kept_add_log kept_scheduler_loop])

section \<open>The reminder text\<close>

lemma rstrip_replicate: "\<exists>n. s = rstrip c s @ replicate n c"
proof -
  let ?P = "\<lambda>x. x = c"
  have "rev (dropWhile ?P (rev s)) @ rev (takeWhile ?P (rev s))
          = rev (takeWhile ?P (rev s) @ dropWhile ?P (rev s))"
    by (simp only: rev_append)
  also have "\<dots> = s"
    by (simp only: takeWhile_dropWhile_id rev_rev_ident)
  finally have s: "s = rstrip c s @ rev (takeWhile ?P (rev s))"
    by (simp add: rstrip_def)
  have tw: "replicate (length (takeWhile ?P (rev s))) c = takeWhile ?P (rev s)"
    by (rule replicate_length_same) (auto dest: set_takeWhileD)
  have "rev (takeWhile ?P (rev s)) = replicate (length (takeWhile ?P (rev s))) c"
    by (metis tw rev_replicate)
  with s show ?thesis by metis
qed

lemma rstrip_last: "rstrip c s \<noteq> [] \<Longrightarrow> last (rstrip c s) \<noteq> c"
proof -
  assume a: "rstrip c s \<noteq> []"
  then have ne: "dropWhile (\<lambda>x. x = c) (rev s) \<noteq> []" by (simp add: rstrip_def)
  have "last (rstrip c s) = hd (dropWhile (\<lambda>x. x = c) (rev s))"
    using ne by (simp add: rstrip_def last_rev)
  moreover have "hd (dropWhile (\<lambda>x. x = c) (rev s)) \<noteq> c"
    using hd_dropWhile[OF ne] by simp
  ultimately show ?thesis by simp
qed

lemma dosage_str_of_shape:
  assumes "CHR ''.'' \<in> set d"
  shows "\<exists>i j. d = dosage_str_of d @ replicate i CHR ''.'' @ replicate j CHR ''0''
           \<and> (dosage_str_of d = [] \<or> last (dosage_str_of d) \<noteq> CHR ''.'')
           \<and> (i = 0 \<longrightarrow> dosage_str_of d = [] \<or> last (dosage_str_of d) \<noteq> CHR ''0'')"
proof -
  let ?a = "rstrip CHR ''0'' d"
  let ?b = "rstrip CHR ''.'' ?a"
  have b: "dosage_str_of d = ?b" using assms by (simp add: dosage_str_of_def)
  obtain j where j: "d = ?a @ replicate j CHR ''0''" using rstrip_replicate by blast
  obtain i where i: "?a = ?b @ replicate i CHR ''.''" using rstrip_replicate by blast
  have l: "?b = [] \<or> last ?b \<noteq> CHR ''.''" using rstrip_last by blast
  have z: "i = 0 \<longrightarrow> ?b = [] \<or> last ?b \<noteq> CHR ''0''"
  proof
    assume "i = 0"
    then have "?a = ?b" using i by simp
    then show "?b = [] \<or> last ?b \<noteq> CHR ''0''" using rstrip_last[of "CHR ''0''" d] by auto
  qed
  have "d = ?b @ replicate i CHR ''.'' @ replicate j CHR ''0''"
    by (metis i j append_assoc)
  with l z show ?thesis unfolding b by blast
qed

lemma grows_refl: "outbox_grows st st"
  by (simp add: outbox_grows_def)

lemma grows_trans: "outbox_grows a b \<Longrightarrow> outbox_grows b c \<Longrightarrow> outbox_grows a c"
  unfolding outbox_grows_def by (metis append_assoc)

lemma grows_add_log: "outbox_grows st (add_log e st)"
  by (simp add: outbox_grows_def add_log_def)

lemma grows_and_then:
  assumes "outbox_grows st (state_of r)" and "\<And>s. outbox_grows s (state_of (f s))"
  shows "outbox_grows st (state_of (and_then r f))"
proof (cases r)
  case (Done s)
  have "outbox_grows st s" using assms(1) Done by simp
  from grows_trans[OF this assms(2)[of s]] show ?thesis using Done by simp
next
  case (Raised e s)
  with assms(1) show ?thesis by simp
qed

lemma grows_send_message: "outbox_grows st (state_of (send_message env uid m st))"
  by (simp add: send_message_def outbox_grows_def)

lemma grows_decrement: "outbox_grows st (state_of (decrement_medicine_quantity env mid v st))"
  by (simp add: decrement_medicine_quantity_def outbox_grows_def)

lemma grows_delete: "outbox_grows st (state_of (delete_medicine env mid st))"
  by (simp add: delete_medicine_def outbox_grows_def)

lemma grows_check_finished: "outbox_grows st (state_of (check_finished env uid mid nm st))"
proof -
  have "outbox_grows st (state_of (and_then (send_message env uid (RanOutMsg nm) st)
                                     (delete_medicine env mid)))"
    by (rule grows_and_then[OF grows_send_message grows_delete])
  then show ?thesis
    unfolding check_finished_def
    by (simp add: grows_refl split: sum.splits option.splits)
qed

lemma grows_update_remaining:
  "outbox_grows st (state_of (update_remaining env uid mid nm d st))"
proof -
  have a: "outbox_grows st (state_of (and_then (decrement_medicine_quantity env mid v st)
                      (check_finished env uid mid nm)))" for v
    by (rule grows_and_then[OF grows_decrement grows_check_finished])
  have b: "outbox_grows st (state_of (and_then (decrement_medicine_quantity env mid v (add_log e st))
                      (check_finished env uid mid nm)))" for v e
    by (rule grows_trans[OF grows_add_log grows_and_then[OF grows_decrement grows_check_finished]])
  show ?thesis
    unfolding update_remaining_def
    by (simp add: grows_refl grows_add_log a b split: sum.splits option.splits)
qed

lemma send_reminder_sent:
  assumes "pyfloat env d = Some v" and "send_ok env uid (ReminderMsg (dosage_str_of d) unit nm)"
  shows "\<exists>rest. outbox (send_reminder env uid mid nm d unit st)
           = outbox st @ (uid, ReminderMsg (dosage_str_of d) unit nm) # rest"
proof -
  let ?m = "ReminderMsg (dosage_str_of d) unit nm"
  let ?s1 = "add_log (InfoSending uid nm d unit) st"
  let ?s2 = "add_log (InfoSent uid) (?s1\<lparr>outbox := outbox ?s1 @ [(uid, ?m)]\<rparr>)"
  let ?r = "update_remaining env uid mid nm d ?s2"
  have body: "send_reminder_try env uid mid nm d unit ?s1 = ?r"
    using assms by (simp add: send_reminder_try_def send_message_def)
  have o2: "outbox ?s2 = outbox st @ [(uid, ?m)]" by (simp add: add_log_def)
  obtain ms where ms: "outbox (state_of ?r) = outbox ?s2 @ ms"
    using grows_update_remaining[of ?s2 env uid mid nm d] unfolding outbox_grows_def by blast
  have fin: "outbox (send_reminder env uid mid nm d unit st) = outbox (state_of ?r)"
    unfolding send_reminder_def body by (cases ?r) (simp_all add: add_log_def)
  show ?thesis unfolding fin ms o2 by simp
qed

text \<open>
  C7. When the dose parses and the transport delivers, the first message that
  \<open>send_reminder\<close> sends is the reminder template filled with the trimmed dose, the
  unit and the medicine name. A dose without a point is shown as it is; a dose with a
  point loses its trailing zeros and then its trailing points, so that what is shown
  does not end in a point; \<open>1.50\<close> is shown as \<open>1.5\<close> and \<open>2.0\<close> as \<open>2\<close>.
\<close>

theorem reminder_text_states_trimmed_dose:
  "(pyfloat env d \<noteq> None \<and> send_ok env uid (ReminderMsg (dosage_str_of d) unit nm) \<longrightarrow>
      (\<exists>rest. outbox (send_reminder env uid mid nm d unit st)
                 = outbox st @ (uid, ReminderMsg (dosage_str_of d) unit nm) # rest))
   \<and> (CHR ''.'' \<notin> set d \<longrightarrow> dosage_str_of d = d)
   \<and> (CHR ''.'' \<in> set d \<longrightarrow>
        (\<exists>i j. d = dosage_str_of d @ replicate i CHR ''.'' @ replicate j CHR ''0''
           \<and> (dosage_str_of d = [] \<or> last (dosage_str_of d) \<noteq> CHR ''.'')
           \<and> (i = 0 \<longrightarrow> dosage_str_of d = [] \<or> last (dosage_str_of d) \<noteq> CHR ''0'')))
   \<and> dosage_str_of ''1.50'' = ''1.5'' \<and> dosage_str_of ''2.0'' = ''2''"
proof (intro conjI impI)
  assume "pyfloat env d \<noteq> None \<and> send_ok env uid (ReminderMsg (dosage_str_of d) unit nm)"
  then show "\<exists>rest. outbox (send_reminder env uid mid nm d unit st)
                 = outbox st @ (uid, ReminderMsg (dosage_str_of d) unit nm) # rest"
    using send_reminder_sent by blast
next
  assume "CHR ''.'' \<notin> set d"
  then show "dosage_str_of d = d" by (simp add: dosage_str_of_def)
next
  assume "CHR ''.'' \<in> set d"
  then show "\<exists>i j. d = dosage_str_of d @ replicate i CHR ''.'' @ replicate j CHR ''0''
           \<and> (dosage_str_of d = [] \<or> last (dosage_str_of d) \<noteq> CHR ''.'')
           \<and> (i = 0 \<longrightarrow> dosage_str_of d = [] \<or> last (dosage_str_of d) \<noteq> CHR ''0'')"
    by (rule dosage_str_of_shape)
next
  show "dosage_str_of ''1.50'' = ''1.5''" by (simp add: dosage_str_of_def rstrip_def)
next
  show "dosage_str_of ''2.0'' = ''2''" by (simp add: dosage_str_of_def rstrip_def)
qed

theorem reminder_text_states_trimmed_dose_witness:
  "(pyfloat moscow_env ''1.50'' \<noteq> None
     \<and> send_ok moscow_env 7 (ReminderMsg (dosage_str_of ''1.50'') (Some ''ml'') (Some ''Aspirin'')))
   \<and> (\<exists>rest. outbox (send_reminder moscow_env 7 1 (Some ''Aspirin'') ''1.50'' (Some ''ml'') aspirin_world)
                 = outbox aspirin_world @ (7, ReminderMsg ''1.5'' (Some ''ml'') (Some ''Aspirin'')) # rest)
   \<and> CHR ''.'' \<in> set ''1.50''
   \<and> (\<exists>i j. ''1.50'' = ''1.5'' @ replicate i CHR ''.'' @ replicate j CHR ''0'')
   \<and> CHR ''.'' \<notin> set ''2'' \<and> dosage_str_of ''2'' = ''2''"
proof -
  have f: "pyfloat moscow_env ''1.50'' \<noteq> None" by code_simp
  have s: "send_ok moscow_env 7 (ReminderMsg (dosage_str_of ''1.50'') (Some ''ml'') (Some ''Aspirin''))"
    by (simp add: moscow_env_def)
  have t: "dosage_str_of ''1.50'' = ''1.5''" by (simp add: dosage_str_of_def rstrip_def)
  have d1: "CHR ''.'' \<in> set ''1.50''" by simp
  have d2: "CHR ''.'' \<notin> set ''2''" by simp
  note a = reminder_text_states_trimmed_dose[of moscow_env "''1.50''" 7 "Some ''ml''" "Some ''Aspirin''" 1 aspirin_world]
  note b = reminder_text_states_trimmed_dose[of moscow_env "''2''" 7 "Some ''ml''" "Some ''Aspirin''" 1 aspirin_world]
  show ?thesis using a b f s d1 d2 unfolding t by blast
qed

section \<open>Failures while a due event is dispatched\<close>

text \<open>
  C10. If the transport does not deliver the reminder, \<open>send_reminder\<close> leaves the store
  as it was: no quantity is decremented and no record deleted; nothing is sent either.
\<close>

theorem send_failure_leaves_store:
  assumes "\<not> send_ok env uid (ReminderMsg (dosage_str_of d) unit nm)"
  shows "medicines (send_reminder env uid mid nm d unit st) = medicines st
       \<and> users (send_reminder env uid mid nm d unit st) = users st
       \<and> last_medicine_id (send_reminder env uid mid nm d unit st) = last_medicine_id st
       \<and> outbox (send_reminder env uid mid nm d unit st) = outbox st"
  using assms
  by (simp add: send_reminder_def send_reminder_try_def send_message_def add_log_def
           split: option.splits)

theorem send_failure_leaves_store_witness:
  "\<not> send_ok transport_down_env 7 (ReminderMsg (dosage_str_of ''1'') (Some ''ml'') (Some ''Aspirin''))
   \<and> medicines (send_reminder transport_down_env 7 1 (Some ''Aspirin'') ''1'' (Some ''ml'')
                  aspirin_world) = [aspirin]
   \<and> outbox (send_reminder transport_down_env 7 1 (Some ''Aspirin'') ''1'' (Some ''ml'')
                  aspirin_world) = []"
proof -
  have h: "\<not> send_ok transport_down_env 7
               (ReminderMsg (dosage_str_of ''1'') (Some ''ml'') (Some ''Aspirin''))"
    by (simp add: transport_down_env_def)
  show ?thesis
    using h send_failure_leaves_store[OF h, of 1 aspirin_world]
    by (simp add: aspirin_world_def)
qed

section \<open>The reminder matcher\<close>

lemma remind_loop_fires:
  "remind_loop env hm m ds its st =
     foldl (fire env m hm) st
       (map (\<lambda>(index, rt). (index, dose_to_send ds index))
          (filter (\<lambda>(index, rt). fst hm = fst rt \<and> snd hm = snd rt) its))"
proof (induction its arbitrary: st)
  case Nil
  show ?case by simp
next
  case (Cons it its)
  obtain i rt where it: "it = (i, rt)" by (cases it)
  show ?case
  proof (cases "fst hm = fst rt \<and> snd hm = snd rt")
    case True
    then have "rt = hm" by (simp add: prod_eq_iff)
    then show ?thesis unfolding it by (simp add: Cons.IH fire_def)
  next
    case False
    then show ?thesis unfolding it by (auto simp: Cons.IH)
  qed
qed

lemma due_events_iff:
  "(i, d) \<in> set (due_events hm ds ts)
     \<longleftrightarrow> i < length ts \<and> ts ! i = hm \<and> d = dose_to_send ds i"
  by (auto simp: due_events_def in_set_enumerate_eq prod_eq_iff)







section \<open>Sweeps without a due event\<close>

text \<open>
  C8. A record whose owner has no timezone entry is passed over: the pass over the
  record returns normally, and all it does is log the warning; no event is dispatched,
  the store and the outbox stay as they were.
\<close>

theorem missing_timezone_skips_record:
  assumes "store_ok env (GetUserTimezone (user_id m))"
    and "map_of (users st) (user_id m) = None"
  shows "check_medicine env now m st = Done (add_log (WarnNoTimezone (user_id m) (name m)) st)
       \<and> medicines (state_of (check_medicine env now m st)) = medicines st
       \<and> users (state_of (check_medicine env now m st)) = users st
       \<and> outbox (state_of (check_medicine env now m st)) = outbox st
       \<and> journal (state_of (check_medicine env now m st))
            = journal st @ [WarnNoTimezone (user_id m) (name m)]"
  using assms
  by (simp add: check_medicine_def get_user_timezone_def add_log_def)

theorem missing_timezone_skips_record_witness:
  "store_ok moscow_env (GetUserTimezone (user_id aspirin))
   \<and> map_of (users stranger_world) (user_id aspirin) = None
   \<and> check_medicine moscow_env 18000 aspirin stranger_world
        = Done (stranger_world\<lparr>journal := [WarnNoTimezone 7 (Some ''Aspirin'')]\<rparr>)"
proof -
  have h1: "store_ok moscow_env (GetUserTimezone (user_id aspirin))"
    by (simp add: moscow_env_def)
  have h2: "map_of (users stranger_world) (user_id aspirin) = None"
    by (simp add: stranger_world_def)
  show ?thesis
    using h1 h2 missing_timezone_skips_record[OF h1 h2, of 18000]
    by (simp add: add_log_def stranger_world_def aspirin_world_def aspirin_def)
qed

lemma remind_loop_idle:
  assumes "hm \<notin> set ts"
  shows "remind_loop env hm m ds (enumerate n ts) st = st"
proof -
  have "\<not> (fst hm = fst rt \<and> snd hm = snd rt)" if "(i, rt) \<in> set (enumerate n ts)" for i rt
  proof
    assume "fst hm = fst rt \<and> snd hm = snd rt"
    then have "hm = rt" by (simp add: prod_eq_iff)
    moreover have "rt \<in> set ts" using that by (auto simp: in_set_enumerate_eq)
    ultimately show False using assms by simp
  qed
  then have "filter (\<lambda>(index, rt). fst hm = fst rt \<and> snd hm = snd rt) (enumerate n ts) = []"
    by (auto simp: filter_empty_conv)
  then show ?thesis by (simp add: remind_loop_fires)
qed

lemma check_medicine_idle:
  assumes "\<forall>tz off ts. map_of (users st) (user_id m) = Some tz \<longrightarrow>
             utcoffset env tz now = Some off \<longrightarrow>
             reminder_times_of (split_str CHR '','' (reminder_time m)) = Some ts \<longrightarrow>
             (local_hour now off, local_minute now off) \<notin> set ts"
  shows "\<exists>js. state_of (check_medicine env now m st) = st\<lparr>journal := journal st @ js\<rparr>
              \<and> list_all quiet js"
proof (cases "store_ok env (GetUserTimezone (user_id m))")
  case False
  then have "state_of (check_medicine env now m st) = st\<lparr>journal := journal st @ []\<rparr>"
    by (simp add: check_medicine_def get_user_timezone_def)
  then show ?thesis by (intro exI[of _ "[]"]) simp
next
  case ok: True
  show ?thesis
  proof (cases "map_of (users st) (user_id m)")
    case None
    then have "state_of (check_medicine env now m st)
                 = st\<lparr>journal := journal st @ [WarnNoTimezone (user_id m) (name m)]\<rparr>"
      using ok by (simp add: check_medicine_def get_user_timezone_def add_log_def)
    then show ?thesis by (intro exI[of _ "[WarnNoTimezone (user_id m) (name m)]"]) simp
  next
    case (Some tz)
    show ?thesis
    proof (cases "tz = []")
      case True
      then have "state_of (check_medicine env now m st)
                   = st\<lparr>journal := journal st @ [WarnNoTimezone (user_id m) (name m)]\<rparr>"
        using ok Some by (simp add: check_medicine_def get_user_timezone_def add_log_def)
      then show ?thesis by (intro exI[of _ "[WarnNoTimezone (user_id m) (name m)]"]) simp
    next
      case ne: False
      have "state_of (check_medicine env now m st) = st\<lparr>journal := journal st @ []\<rparr>"
      proof (cases "utcoffset env tz now")
        case None
        then show ?thesis
          using ok Some ne by (simp add: check_medicine_def get_user_timezone_def)
      next
        case off: (Some off)
        show ?thesis
        proof (cases "reminder_times_of (split_str CHR '','' (reminder_time m))")
          case None
          then show ?thesis
            using ok Some ne off by (simp add: check_medicine_def get_user_timezone_def)
        next
          case ts: (Some ts)
          have "(local_hour now off, local_minute now off) \<notin> set ts"
            using assms Some off ts by blast
          then show ?thesis
            using ok Some ne off ts
            by (simp add: check_medicine_def get_user_timezone_def remind_loop_idle)
        qed
      qed
      then show ?thesis by (intro exI[of _ "[]"]) simp
    qed
  qed
qed

lemma check_all_idle:
  assumes "\<forall>m\<in>set ms. \<forall>tz off ts. map_of (users st) (user_id m) = Some tz \<longrightarrow>
             utcoffset env tz now = Some off \<longrightarrow>
             reminder_times_of (split_str CHR '','' (reminder_time m)) = Some ts \<longrightarrow>
             (local_hour now off, local_minute now off) \<notin> set ts"
  shows "\<exists>js. state_of (check_all env now ms st) = st\<lparr>journal := journal st @ js\<rparr>
              \<and> list_all quiet js"
  using assms
proof (induction ms arbitrary: st)
  case Nil
  show ?case by (intro exI[of _ "[]"]) simp
next
  case (Cons m ms)
  from Cons.prems obtain js1 where
    js1: "state_of (check_medicine env now m st) = st\<lparr>journal := journal st @ js1\<rparr>"
    and q1: "list_all quiet js1"
    using check_medicine_idle[of st m env now] by auto
  let ?s1 = "st\<lparr>journal := journal st @ js1\<rparr>"
  show ?case
  proof (cases "check_medicine env now m st")
    case (Raised e s)
    then have "state_of (check_all env now (m # ms) st) = ?s1" using js1 by simp
    with q1 show ?thesis by blast
  next
    case (Done s)
    then have s: "s = ?s1" using js1 by simp
    have "users ?s1 = users st" by simp
    with Cons.prems have "\<forall>m\<in>set ms. \<forall>tz off ts. map_of (users ?s1) (user_id m) = Some tz \<longrightarrow>
             utcoffset env tz now = Some off \<longrightarrow>
             reminder_times_of (split_str CHR '','' (reminder_time m)) = Some ts \<longrightarrow>
             (local_hour now off, local_minute now off) \<notin> set ts"
      by simp
    from Cons.IH[OF this] obtain js2 where
      js2: "state_of (check_all env now ms ?s1) = ?s1\<lparr>journal := journal ?s1 @ js2\<rparr>"
      and q2: "list_all quiet js2" by blast
    have "state_of (check_all env now (m # ms) st) = st\<lparr>journal := journal st @ (js1 @ js2)\<rparr>"
      using Done s js2 by simp
    moreover have "list_all quiet (js1 @ js2)" using q1 q2 by simp
    ultimately show ?thesis by blast
  qed
qed

lemma due_events_idle: "hm \<notin> set ts \<Longrightarrow> due_events hm ds ts = []"
proof -
  assume a: "hm \<notin> set ts"
  have "(i, d) \<notin> set (due_events hm ds ts)" for i d
    using a by (auto simp: due_events_iff)
  then show ?thesis by (cases "due_events hm ds ts") auto
qed

text \<open>
  C9. A sweep at an instant at which no reminder time of any record equals the hour and
  minute in its owner's timezone has no due event, and changes nothing but the log, to
  which it adds only its own line and the warnings for owners without a timezone: the
  records, the users and the messages sent are what they were, whether the sweep
  returns or raises.
\<close>

theorem idle_sweep_changes_nothing:
  assumes "\<forall>m\<in>set (medicines st). \<forall>tz off ts. map_of (users st) (user_id m) = Some tz \<longrightarrow>
             utcoffset env tz now = Some off \<longrightarrow>
             reminder_times_of (split_str CHR '','' (reminder_time m)) = Some ts \<longrightarrow>
             (local_hour now off, local_minute now off) \<notin> set ts"
  shows "(\<exists>js. state_of (sweep env now st) = st\<lparr>journal := journal st @ js\<rparr>
               \<and> list_all quiet js)
       \<and> medicines (state_of (sweep env now st)) = medicines st
       \<and> users (state_of (sweep env now st)) = users st
       \<and> outbox (state_of (sweep env now st)) = outbox st
       \<and> (\<forall>m\<in>set (medicines st). \<forall>tz off ts. map_of (users st) (user_id m) = Some tz \<longrightarrow>
             utcoffset env tz now = Some off \<longrightarrow>
             reminder_times_of (split_str CHR '','' (reminder_time m)) = Some ts \<longrightarrow>
             due_events (local_hour now off, local_minute now off) (split_strip (dosage m)) ts = [])"
proof -
  have log: "\<exists>js. state_of (sweep env now st) = st\<lparr>journal := journal st @ js\<rparr>
               \<and> list_all quiet js"
  proof (cases "store_ok env GetAllMedicines")
    case False
    then have "state_of (sweep env now st) = st\<lparr>journal := journal st @ []\<rparr>"
      by (simp add: sweep_def get_all_medicines_with_time_def)
    then show ?thesis by (intro exI[of _ "[]"]) simp
  next
    case True
    let ?e = "InfoCheck now (length (medicines st))"
    let ?s1 = "add_log ?e st"
    have sw: "sweep env now st = check_all env now (medicines st) ?s1"
      using True by (simp add: sweep_def get_all_medicines_with_time_def)
    have "users ?s1 = users st" by (simp add: add_log_def)
    with assms have "\<forall>m\<in>set (medicines st). \<forall>tz off ts.
             map_of (users ?s1) (user_id m) = Some tz \<longrightarrow>
             utcoffset env tz now = Some off \<longrightarrow>
             reminder_times_of (split_str CHR '','' (reminder_time m)) = Some ts \<longrightarrow>
             (local_hour now off, local_minute now off) \<notin> set ts"
      by simp
    from check_all_idle[OF this] obtain js where
      js: "state_of (check_all env now (medicines st) ?s1) = ?s1\<lparr>journal := journal ?s1 @ js\<rparr>"
      and q: "list_all quiet js" by blast
    have "state_of (sweep env now st) = st\<lparr>journal := journal st @ (?e # js)\<rparr>"
      unfolding sw js by (simp add: add_log_def)
    moreover have "list_all quiet (?e # js)" using q by simp
    ultimately show ?thesis by blast
  qed
  then obtain js where js: "state_of (sweep env now st) = st\<lparr>journal := journal st @ js\<rparr>"
    by blast
  have m: "medicines (state_of (sweep env now st)) = medicines st"
    and u: "users (state_of (sweep env now st)) = users st"
    and ob: "outbox (state_of (sweep env now st)) = outbox st"
    unfolding js by simp_all
  have d: "\<forall>m\<in>set (medicines st). \<forall>tz off ts. map_of (users st) (user_id m) = Some tz \<longrightarrow>
             utcoffset env tz now = Some off \<longrightarrow>
             reminder_times_of (split_str CHR '','' (reminder_time m)) = Some ts \<longrightarrow>
             due_events (local_hour now off, local_minute now off) (split_strip (dosage m)) ts = []"
    using assms due_events_idle by blast
  from log m u ob d show ?thesis by blast
qed

theorem idle_sweep_changes_nothing_witness:
  "medicines aspirin_world = [aspirin]
   \<and> (local_hour 17940 10800, local_minute 17940 10800) \<notin> set [(8, 0)]
   \<and> map_of (users aspirin_world) (user_id aspirin) = Some ''Europe/Moscow''
   \<and> utcoffset moscow_env ''Europe/Moscow'' 17940 = Some 10800
   \<and> reminder_times_of (split_str CHR '','' (reminder_time aspirin)) = Some [(8, 0)]
   \<and> medicines (state_of (sweep moscow_env 17940 aspirin_world)) = [aspirin]
   \<and> outbox (state_of (sweep moscow_env 17940 aspirin_world)) = []
   \<and> due_events (local_hour 17940 10800, local_minute 17940 10800)
        (split_strip (dosage aspirin)) [(8, 0)] = []"
proof -
  have t: "reminder_times_of (split_str CHR '','' (reminder_time aspirin)) = Some [(8, 0)]"
    by code_simp
  have hm: "local_hour 17940 10800 = 7" "local_minute 17940 10800 = 59"
    by (simp_all add: local_hour_def local_minute_def)
  have u: "map_of (users aspirin_world) (user_id aspirin) = Some ''Europe/Moscow''"
    by (simp add: aspirin_world_def aspirin_def)
  have o: "utcoffset moscow_env ''Europe/Moscow'' 17940 = Some 10800"
    by (simp add: moscow_env_def)
  have h: "\<forall>m\<in>set (medicines aspirin_world). \<forall>tz off ts.
       map_of (users aspirin_world) (user_id m) = Some tz \<longrightarrow>
       utcoffset moscow_env tz 17940 = Some off \<longrightarrow>
       reminder_times_of (split_str CHR '','' (reminder_time m)) = Some ts \<longrightarrow>
       (local_hour 17940 off, local_minute 17940 off) \<notin> set ts"
    using t u o hm by (auto simp: aspirin_world_def moscow_env_def)
  have a: "aspirin \<in> set (medicines aspirin_world)" by (simp add: aspirin_world_def)
  note r = idle_sweep_changes_nothing[OF h]
  from r a u o t have "due_events (local_hour 17940 10800, local_minute 17940 10800)
        (split_strip (dosage aspirin)) [(8, 0)] = []" by blast
  moreover from r have "medicines (state_of (sweep moscow_env 17940 aspirin_world)) = [aspirin]"
    by (simp add: aspirin_world_def)
  moreover from r have "outbox (state_of (sweep moscow_env 17940 aspirin_world)) = []"
    by (simp add: aspirin_world_def)
  moreover have "medicines aspirin_world = [aspirin]" by (simp add: aspirin_world_def)
  moreover have "(local_hour 17940 10800, local_minute 17940 10800) \<notin> set [(8, 0)]"
    using hm by simp
  ultimately show ?thesis using u o t by blast
qed

section \<open>Failures and the scheduler loop\<close>

lemma matching_works_kept:
  assumes "kept st st'" and "matching_works env now st"
  shows "matching_works env now st'"
proof -
  have sub: "schedule_of ` set (medicines st') \<subseteq> schedule_of ` set (medicines st)"
    and us: "users st' = users st"
    using assms(1) by (simp_all add: kept_def)
  have ex: "\<exists>m\<in>set (medicines st). user_id m = user_id m' \<and> reminder_time m = reminder_time m'"
    if "m' \<in> set (medicines st')" for m'
  proof -
    from that sub have "schedule_of m' \<in> schedule_of ` set (medicines st)" by blast
    then obtain m where "m \<in> set (medicines st)" and "schedule_of m = schedule_of m'" by auto
    then show ?thesis by (auto simp: schedule_of_def)
  qed
  show ?thesis
    using assms(2) us unfolding matching_works_def
    by (metis ex)
qed

lemma check_medicine_returns:
  assumes "store_ok env (GetUserTimezone (user_id m))"
    and "\<forall>tz\<in>snd ` set (users st). tz \<noteq> [] \<longrightarrow> utcoffset env tz now \<noteq> None"
    and "reminder_times_of (split_str CHR '','' (reminder_time m)) \<noteq> None"
  shows "\<exists>s. check_medicine env now m st = Done s"
proof (cases "map_of (users st) (user_id m)")
  case None
  then show ?thesis using assms(1) by (simp add: check_medicine_def get_user_timezone_def)
next
  case (Some tz)
  then have "(user_id m, tz) \<in> set (users st)" by (rule map_of_SomeD)
  then have "tz \<in> snd ` set (users st)" by force
  with assms(2) have "tz \<noteq> [] \<longrightarrow> utcoffset env tz now \<noteq> None" by blast
  then show ?thesis
    using assms(1,3) Some
    by (auto simp: check_medicine_def get_user_timezone_def split: option.splits)
qed

lemma check_all_returns:
  assumes "\<forall>m\<in>set ms. store_ok env (GetUserTimezone (user_id m))"
    and "\<forall>tz\<in>snd ` set (users st). tz \<noteq> [] \<longrightarrow> utcoffset env tz now \<noteq> None"
    and "\<forall>m\<in>set ms. reminder_times_of (split_str CHR '','' (reminder_time m)) \<noteq> None"
  shows "\<exists>s. check_all env now ms st = Done s"
  using assms
proof (induction ms arbitrary: st)
  case Nil
  show ?case by simp
next
  case (Cons m ms)
  from Cons.prems obtain s where s: "check_medicine env now m st = Done s"
    using check_medicine_returns[of env m st now] by auto
  have "users s = users st"
    using kept_check_medicine[of st env now m] s by (simp add: kept_def)
  with Cons.prems have "\<exists>s'. check_all env now ms s = Done s'"
    by (intro Cons.IH) simp_all
  then show ?case using s by simp
qed

lemma sweep_returns:
  assumes "matching_works env now st"
  shows "\<exists>s. sweep env now st = Done s"
proof -
  let ?s1 = "add_log (InfoCheck now (length (medicines st))) st"
  have "users ?s1 = users st" by (simp add: add_log_def)
  with assms have "\<exists>s. check_all env now (medicines st) ?s1 = Done s"
    unfolding matching_works_def by (intro check_all_returns) simp_all
  then show ?thesis
    using assms by (simp add: sweep_def get_all_medicines_with_time_def matching_works_def)
qed

lemma scheduler_loop_returns:
  assumes "\<forall>(env, now)\<in>set passes. matching_works env now st"
  shows "\<exists>s. scheduler_loop passes st = Done s"
  using assms
proof (induction passes arbitrary: st)
  case Nil
  show ?case by simp
next
  case (Cons p ps)
  obtain env now where p: "p = (env, now)" by (cases p)
  from Cons.prems p have "matching_works env now st" by simp
  then obtain s where s: "sweep env now st = Done s" using sweep_returns by blast
  have k: "kept st s" using kept_sweep[of st env now] s by simp
  have "\<forall>(env, now)\<in>set ps. matching_works env now s"
    using Cons.prems matching_works_kept[OF k] by auto
  from Cons.IH[OF this] show ?case unfolding p using s by simp
qed

text \<open>
  C2, as the code has it. In the first scenario the store is down during the first
  pass: listing the medicines raises, nothing in \<open>scheduler_setup\<close> catches it, and the
  loop has ended; the pass of the next day, at which the medicine is due and
  everything works, is not run (run alone, it sends the reminder). In the second
  scenario the timezone lookup raises, with the same end.
\<close>

theorem store_failure_ends_scheduler:
  "scheduler_setup [(store_down_env, 18000), (moscow_env, 104400)] aspirin_world
     = Raised StoreError (aspirin_world\<lparr>journal := [InfoSchedulerStart]\<rparr>)
   \<and> sweep timezone_lookup_down_env 18000 aspirin_world
     = Raised StoreError (aspirin_world\<lparr>journal := [InfoCheck 18000 1]\<rparr>)
   \<and> outbox (state_of (scheduler_setup [(moscow_env, 104400)] aspirin_world))
     = [(7, ReminderMsg ''1'' (Some ''ml'') (Some ''Aspirin''))]"
  by code_simp

text \<open>
  C2, amended. The loop goes on through every pass in which the calls of the sweep
  outside \<open>send_reminder\<close> go through (listing, timezone lookups, timezone resolution,
  parsing of the stored times), whatever the transport and the store do while the due
  events are dispatched: an exception raised there is caught by \<open>send_reminder\<close>,
  which logs it and returns.
\<close>

theorem dispatch_failures_do_not_end_scheduler:
  assumes "\<forall>(env, now)\<in>set passes. matching_works env now st"
  shows "(\<exists>s. scheduler_setup passes st = Done s)
       \<and> (\<forall>env uid mid nm d unit w e s.
             send_reminder_try env uid mid nm d unit (add_log (InfoSending uid nm d unit) w)
               = Raised e s
             \<longrightarrow> send_reminder env uid mid nm d unit w = add_log (ErrorSending uid e) s)"
proof -
  have "\<forall>(env, now)\<in>set passes. matching_works env now (add_log InfoSchedulerStart st)"
    using assms matching_works_kept[OF kept_add_log] by auto
  from scheduler_loop_returns[OF this] show ?thesis
    by (simp add: scheduler_setup_def send_reminder_def)
qed

theorem dispatch_failures_do_not_end_scheduler_witness:
  "matching_works transport_down_env 18000 aspirin_world
   \<and> matching_works dispatch_store_down_env 104400 aspirin_world
   \<and> (\<exists>s. scheduler_setup [(transport_down_env, 18000), (dispatch_store_down_env, 104400)]
             aspirin_world = Done s)
   \<and> journal (state_of (scheduler_setup
         [(transport_down_env, 18000), (dispatch_store_down_env, 104400)] aspirin_world))
       = [InfoSchedulerStart,
          InfoCheck 18000 1,
          InfoDue 7 (Some ''Aspirin'') (8, 0) ''1'' (Some ''ml''),
          InfoSending 7 (Some ''Aspirin'') ''1'' (Some ''ml''),
          ErrorSending 7 TransportError,
          InfoCheck 104400 1,
          InfoDue 7 (Some ''Aspirin'') (8, 0) ''1'' (Some ''ml''),
          InfoSending 7 (Some ''Aspirin'') ''1'' (Some ''ml''),
          InfoSent 7,
          ErrorSending 7 StoreError]"
proof -
  have a: "matching_works transport_down_env 18000 aspirin_world" by code_simp
  have b: "matching_works dispatch_store_down_env 104400 aspirin_world" by code_simp
  have h: "\<forall>(env, now)\<in>set [(transport_down_env, 18000), (dispatch_store_down_env, 104400)].
      matching_works env now aspirin_world"
    using a b by simp
  have j: "journal (state_of (scheduler_setup
         [(transport_down_env, 18000), (dispatch_store_down_env, 104400)] aspirin_world))
       = [InfoSchedulerStart,
          InfoCheck 18000 1,
          InfoDue 7 (Some ''Aspirin'') (8, 0) ''1'' (Some ''ml''),
          InfoSending 7 (Some ''Aspirin'') ''1'' (Some ''ml''),
          ErrorSending 7 TransportError,
          InfoCheck 104400 1,
          InfoDue 7 (Some ''Aspirin'') (8, 0) ''1'' (Some ''ml''),
          InfoSending 7 (Some ''Aspirin'') ''1'' (Some ''ml''),
          InfoSent 7,
          ErrorSending 7 StoreError]"
    by code_simp
  show ?thesis
    using a b j dispatch_failures_do_not_end_scheduler[OF h] by blast
qed

section \<open>Depletion\<close>

lemma find_decremented:
  "find (\<lambda>m. medicine_id m = mid)
     (map (\<lambda>m. if medicine_id m = mid then m\<lparr>remaining_quantity := f (remaining_quantity m)\<rparr> else m) ms)
   = map_option (\<lambda>m. m\<lparr>remaining_quantity := f (remaining_quantity m)\<rparr>)
       (find (\<lambda>m. medicine_id m = mid) ms)"
  by (induction ms) simp_all

lemma find_deleted:
  "find (\<lambda>m. medicine_id m = mid) (filter (\<lambda>m. medicine_id m \<noteq> mid) ms) = None"
  by (induction ms) simp_all

lemma check_finished_deletes:
  assumes "store_ok env (GetMedicineById True mid)" and "store_ok env (DeleteMedicine mid)"
    and "find (\<lambda>m. medicine_id m = mid) (medicines st) = Some m"
    and "remaining_quantity m = Some q" and "q \<le> 0"
    and "send_ok env uid (RanOutMsg nm)"
  shows "check_finished env uid mid nm st =
           Done (st\<lparr>outbox := outbox st @ [(uid, RanOutMsg nm)],
                    medicines := filter (\<lambda>m. medicine_id m \<noteq> mid) (medicines st)\<rparr>)"
  using assms
  by (simp add: check_finished_def get_medicine_by_id_def send_message_def delete_medicine_def)

lemma update_remaining_deletes:
  assumes "pyfloat env d = Some v"
    and "store_ok env (GetMedicineById False mid)" and "store_ok env (DecrementQuantity mid)"
    and "store_ok env (GetMedicineById True mid)" and "store_ok env (DeleteMedicine mid)"
    and "find (\<lambda>m. medicine_id m = mid) (medicines st) = Some m"
    and "remaining_quantity m = Some q" and "0 < q" and "q - v \<le> 0"
    and "send_ok env uid (RanOutMsg nm)"
  shows "\<exists>ms. update_remaining env uid mid nm d st =
           Done (st\<lparr>outbox := outbox st @ [(uid, RanOutMsg nm)],
                    medicines := filter (\<lambda>m. medicine_id m \<noteq> mid) ms\<rparr>)"
proof -
  let ?ms = "map (\<lambda>m. if medicine_id m = mid
                       then m\<lparr>remaining_quantity := map_option (\<lambda>q. q - v) (remaining_quantity m)\<rparr>
                       else m) (medicines st)"
  let ?s1 = "st\<lparr>medicines := ?ms\<rparr>"
  have dec: "decrement_medicine_quantity env mid v st = Done ?s1"
    using assms(3) by (simp add: decrement_medicine_quantity_def)
  have f: "find (\<lambda>m. medicine_id m = mid) (medicines ?s1)
             = Some (m\<lparr>remaining_quantity := map_option (\<lambda>q. q - v) (remaining_quantity m)\<rparr>)"
    using assms(6) by (simp add: find_decremented)
  have r: "remaining_quantity (m\<lparr>remaining_quantity := map_option (\<lambda>q. q - v) (remaining_quantity m)\<rparr>)
             = Some (q - v)"
    using assms(7) by simp
  have cf: "check_finished env uid mid nm ?s1 =
           Done (?s1\<lparr>outbox := outbox ?s1 @ [(uid, RanOutMsg nm)],
                    medicines := filter (\<lambda>m. medicine_id m \<noteq> mid) (medicines ?s1)\<rparr>)"
    by (rule check_finished_deletes[OF assms(4) assms(5) f r assms(9) assms(10)])
  have "update_remaining env uid mid nm d st = check_finished env uid mid nm ?s1"
    using assms(1,2,6,7,8) dec
    by (simp add: update_remaining_def get_medicine_by_id_def)
  then show ?thesis unfolding cf by (intro exI[of _ ?ms]) simp
qed

lemma send_reminder_deletes:
  assumes "pyfloat env d = Some v"
    and "send_ok env uid (ReminderMsg (dosage_str_of d) unit nm)"
    and "store_ok env (GetMedicineById False mid)" and "store_ok env (DecrementQuantity mid)"
    and "store_ok env (GetMedicineById True mid)" and "store_ok env (DeleteMedicine mid)"
    and "find (\<lambda>m. medicine_id m = mid) (medicines st) = Some m"
    and "remaining_quantity m = Some q" and "0 < q" and "q - v \<le> 0"
    and "send_ok env uid (RanOutMsg nm)"
  shows "find (\<lambda>m. medicine_id m = mid) (medicines (send_reminder env uid mid nm d unit st)) = None
       \<and> outbox (send_reminder env uid mid nm d unit st)
           = outbox st @ [(uid, ReminderMsg (dosage_str_of d) unit nm), (uid, RanOutMsg nm)]"
proof -
  let ?m = "ReminderMsg (dosage_str_of d) unit nm"
  let ?s1 = "add_log (InfoSending uid nm d unit) st"
  let ?s2 = "add_log (InfoSent uid) (?s1\<lparr>outbox := outbox ?s1 @ [(uid, ?m)]\<rparr>)"
  have body: "send_reminder_try env uid mid nm d unit ?s1 = update_remaining env uid mid nm d ?s2"
    using assms(1,2) by (simp add: send_reminder_try_def send_message_def)
  have f: "find (\<lambda>m. medicine_id m = mid) (medicines ?s2) = Some m"
    using assms(7) by (simp add: add_log_def)
  from update_remaining_deletes[OF assms(1) assms(3) assms(4) assms(5) assms(6) f assms(8)
         assms(9) assms(10) assms(11)]
  obtain ms where ms: "update_remaining env uid mid nm d ?s2 =
           Done (?s2\<lparr>outbox := outbox ?s2 @ [(uid, RanOutMsg nm)],
                    medicines := filter (\<lambda>m. medicine_id m \<noteq> mid) ms\<rparr>)"
    by blast
  have sr: "send_reminder env uid mid nm d unit st
              = ?s2\<lparr>outbox := outbox ?s2 @ [(uid, RanOutMsg nm)],
                    medicines := filter (\<lambda>m. medicine_id m \<noteq> mid) ms\<rparr>"
    unfolding send_reminder_def body ms by simp
  show ?thesis unfolding sr by (simp add: find_deleted add_log_def)
qed

lemma send_reminder_exhausted:
  assumes "find (\<lambda>m. medicine_id m = mid) (medicines st) = Some m"
    and "remaining_quantity m = Some q" and "q \<le> 0"
  shows "medicines (send_reminder env uid mid nm d unit st) = medicines st"
proof -
  have "medicines (state_of (update_remaining env uid mid nm d s)) = medicines s"
    if "medicines s = medicines st" for s
    using that assms
    by (simp add: update_remaining_def get_medicine_by_id_def add_log_def)
  then have "medicines (state_of (send_reminder_try env uid mid nm d unit s)) = medicines st"
    if "medicines s = medicines st" for s
    using that
    by (simp add: send_reminder_try_def send_message_def add_log_def split: option.splits)
  then have "medicines (state_of (send_reminder_try env uid mid nm d unit
                (add_log (InfoSending uid nm d unit) st))) = medicines st"
    by (simp add: add_log_def)
  then show ?thesis
    unfolding send_reminder_def
    by (cases "send_reminder_try env uid mid nm d unit (add_log (InfoSending uid nm d unit) st)")
       (simp_all add: add_log_def)
qed

text \<open>
  C3, as the code has it. The record has one dose left and is due. In the first pass
  the reminder goes out and the quantity falls to 0, but the transport does not
  deliver the depletion warning: the exception skips the deletion. In the pass of the
  next day everything works, the record is observed with quantity 0, a reminder is sent
  for it, and it is left in the store (bot.py:62-63). The same holds for any record
  that is in the store with quantity 0: a due sweep leaves it there.
\<close>

theorem exhausted_record_survives:
  "medicines (state_of (scheduler_setup [(ranout_lost_env, 18000), (moscow_env, 104400)]
                          last_dose_world))
     = [aspirin\<lparr>remaining_quantity := Some 0\<rparr>]
   \<and> get_medicine_by_id moscow_env False 1
        (state_of (scheduler_setup [(ranout_lost_env, 18000), (moscow_env, 104400)]
                     last_dose_world))
     = Inr (Some (aspirin\<lparr>remaining_quantity := Some 0\<rparr>))
   \<and> outbox (state_of (scheduler_setup [(ranout_lost_env, 18000), (moscow_env, 104400)]
                          last_dose_world))
     = [(7, ReminderMsg ''1'' (Some ''ml'') (Some ''Aspirin'')),
        (7, ReminderMsg ''1'' (Some ''ml'') (Some ''Aspirin''))]
   \<and> medicines (state_of (sweep moscow_env 18000 exhausted_world))
     = [aspirin\<lparr>remaining_quantity := Some 0\<rparr>]"
  by code_simp

text \<open>
  C3, amended. When the dose is a number, the reminder is delivered, the store calls
  of the event go through, the record had a positive quantity and the decrement brings
  it to zero or below, and the depletion warning is delivered, then the event sends the
  warning and deletes the record: any later fetch by its identifier finds nothing. A
  record that already has a quantity of zero or below when an event is dispatched is
  neither decremented nor deleted.
\<close>

theorem depleted_record_is_deleted:
  "(pyfloat env d = Some v
      \<and> send_ok env uid (ReminderMsg (dosage_str_of d) unit nm)
      \<and> store_ok env (GetMedicineById False mid) \<and> store_ok env (DecrementQuantity mid)
      \<and> store_ok env (GetMedicineById True mid) \<and> store_ok env (DeleteMedicine mid)
      \<and> find (\<lambda>m. medicine_id m = mid) (medicines st) = Some m
      \<and> remaining_quantity m = Some q \<and> 0 < q \<and> q - v \<le> 0
      \<and> send_ok env uid (RanOutMsg nm)
    \<longrightarrow> outbox (send_reminder env uid mid nm d unit st)
          = outbox st @ [(uid, ReminderMsg (dosage_str_of d) unit nm), (uid, RanOutMsg nm)]
        \<and> find (\<lambda>m. medicine_id m = mid) (medicines (send_reminder env uid mid nm d unit st))
            = None
        \<and> (\<forall>env' again. store_ok env' (GetMedicineById again mid) \<longrightarrow>
              get_medicine_by_id env' again mid (send_reminder env uid mid nm d unit st)
                = Inr None))
   \<and> (find (\<lambda>m. medicine_id m = mid) (medicines st) = Some m
      \<and> remaining_quantity m = Some q \<and> q \<le> 0
    \<longrightarrow> medicines (send_reminder env uid mid nm d unit st) = medicines st)"
proof (intro conjI impI)
  assume a: "pyfloat env d = Some v
      \<and> send_ok env uid (ReminderMsg (dosage_str_of d) unit nm)
      \<and> store_ok env (GetMedicineById False mid) \<and> store_ok env (DecrementQuantity mid)
      \<and> store_ok env (GetMedicineById True mid) \<and> store_ok env (DeleteMedicine mid)
      \<and> find (\<lambda>m. medicine_id m = mid) (medicines st) = Some m
      \<and> remaining_quantity m = Some q \<and> 0 < q \<and> q - v \<le> 0
      \<and> send_ok env uid (RanOutMsg nm)"
  then have r: "find (\<lambda>m. medicine_id m = mid) (medicines (send_reminder env uid mid nm d unit st)) = None
       \<and> outbox (send_reminder env uid mid nm d unit st)
           = outbox st @ [(uid, ReminderMsg (dosage_str_of d) unit nm), (uid, RanOutMsg nm)]"
    by (intro send_reminder_deletes[of env d v uid unit nm mid st m q]) simp_all
  from r show "outbox (send_reminder env uid mid nm d unit st)
          = outbox st @ [(uid, ReminderMsg (dosage_str_of d) unit nm), (uid, RanOutMsg nm)]"
    by simp
  from r show "find (\<lambda>m. medicine_id m = mid) (medicines (send_reminder env uid mid nm d unit st))
            = None" by simp
  from r show "\<forall>env' again. store_ok env' (GetMedicineById again mid) \<longrightarrow>
              get_medicine_by_id env' again mid (send_reminder env uid mid nm d unit st)
                = Inr None"
    by (simp add: get_medicine_by_id_def)
next
  assume "find (\<lambda>m. medicine_id m = mid) (medicines st) = Some m
      \<and> remaining_quantity m = Some q \<and> q \<le> 0"
  then show "medicines (send_reminder env uid mid nm d unit st) = medicines st"
    using send_reminder_exhausted[of mid st m q] by blast
qed

theorem depleted_record_is_deleted_witness:
  "(pyfloat moscow_env ''1'' = Some 1
      \<and> send_ok moscow_env 7 (ReminderMsg (dosage_str_of ''1'') (Some ''ml'') (Some ''Aspirin''))
      \<and> store_ok moscow_env (GetMedicineById False 1) \<and> store_ok moscow_env (DecrementQuantity 1)
      \<and> store_ok moscow_env (GetMedicineById True 1) \<and> store_ok moscow_env (DeleteMedicine 1)
      \<and> find (\<lambda>m. medicine_id m = 1) (medicines last_dose_world)
           = Some (aspirin\<lparr>remaining_quantity := Some 1\<rparr>)
      \<and> remaining_quantity (aspirin\<lparr>remaining_quantity := Some 1\<rparr>) = Some 1
      \<and> (0::rat) < 1 \<and> (1::rat) - 1 \<le> 0
      \<and> send_ok moscow_env 7 (RanOutMsg (Some ''Aspirin'')))
   \<and> find (\<lambda>m. medicine_id m = 1)
        (medicines (send_reminder moscow_env 7 1 (Some ''Aspirin'') ''1'' (Some ''ml'')
                      last_dose_world)) = None
   \<and> get_medicine_by_id moscow_env False 1
        (send_reminder moscow_env 7 1 (Some ''Aspirin'') ''1'' (Some ''ml'') last_dose_world)
       = Inr None
   \<and> (find (\<lambda>m. medicine_id m = 1) (medicines exhausted_world)
           = Some (aspirin\<lparr>remaining_quantity := Some 0\<rparr>)
      \<and> remaining_quantity (aspirin\<lparr>remaining_quantity := Some 0\<rparr>) = Some 0
      \<and> (0::rat) \<le> 0)
   \<and> medicines (send_reminder moscow_env 7 1 (Some ''Aspirin'') ''1'' (Some ''ml'')
                  exhausted_world) = medicines exhausted_world"
proof -
  have h: "pyfloat moscow_env ''1'' = Some 1
      \<and> send_ok moscow_env 7 (ReminderMsg (dosage_str_of ''1'') (Some ''ml'') (Some ''Aspirin''))
      \<and> store_ok moscow_env (GetMedicineById False 1) \<and> store_ok moscow_env (DecrementQuantity 1)
      \<and> store_ok moscow_env (GetMedicineById True 1) \<and> store_ok moscow_env (DeleteMedicine 1)
      \<and> find (\<lambda>m. medicine_id m = 1) (medicines last_dose_world)
           = Some (aspirin\<lparr>remaining_quantity := Some 1\<rparr>)
      \<and> remaining_quantity (aspirin\<lparr>remaining_quantity := Some 1\<rparr>) = Some 1
      \<and> (0::rat) < 1 \<and> (1::rat) - 1 \<le> 0
      \<and> send_ok moscow_env 7 (RanOutMsg (Some ''Aspirin''))"
    by code_simp
  have g: "find (\<lambda>m. medicine_id m = 1) (medicines exhausted_world)
           = Some (aspirin\<lparr>remaining_quantity := Some 0\<rparr>)
      \<and> remaining_quantity (aspirin\<lparr>remaining_quantity := Some 0\<rparr>) = Some 0
      \<and> (0::rat) \<le> 0"
    by code_simp
  have so: "store_ok moscow_env (GetMedicineById False 1)" by (simp add: moscow_env_def)
  note a = depleted_record_is_deleted[of moscow_env "''1''" 1 7 "Some ''ml''" "Some ''Aspirin''" 1
             last_dose_world "aspirin\<lparr>remaining_quantity := Some 1\<rparr>" 1]
  note b = depleted_record_is_deleted[of moscow_env "''1''" 1 7 "Some ''ml''" "Some ''Aspirin''" 1
             exhausted_world "aspirin\<lparr>remaining_quantity := Some 0\<rparr>" 0]
  from a h so have a': "find (\<lambda>m. medicine_id m = 1)
        (medicines (send_reminder moscow_env 7 1 (Some ''Aspirin'') ''1'' (Some ''ml'')
                      last_dose_world)) = None
     \<and> get_medicine_by_id moscow_env False 1
        (send_reminder moscow_env 7 1 (Some ''Aspirin'') ''1'' (Some ''ml'') last_dose_world)
       = Inr None"
    by blast
  from b g have b': "medicines (send_reminder moscow_env 7 1 (Some ''Aspirin'') ''1'' (Some ''ml'')
                  exhausted_world) = medicines exhausted_world"
    by blast
  from h g a' b' show ?thesis by blast
qed

section \<open>The input collector\<close>

lemma all_floats_iff: "all_floats env ds \<longleftrightarrow> (\<forall>d\<in>set ds. pyfloat env d \<noteq> None)"
  by (induction ds) (auto split: option.splits)

lemma answer_state:
  "fst (state_of (answer env uid m c st)) = c"
  "medicines (snd (state_of (answer env uid m c st))) = medicines st"
  "users (snd (state_of (answer env uid m c st))) = users st"
  "last_medicine_id (snd (state_of (answer env uid m c st))) = last_medicine_id st"
  by (simp_all add: answer_def send_message_def)

lemma get_medicine_dosage_rejects:
  assumes "d \<in> set (split_strip dosages_text)" and "pyfloat env d = None"
  shows "fst (state_of (get_medicine_dosage env uid dosages_text (c, st))) = c"
    and "medicines (snd (state_of (get_medicine_dosage env uid dosages_text (c, st)))) = medicines st"
proof -
  have "\<not> all_floats env (split_strip dosages_text)"
    using assms by (auto simp: all_floats_iff)
  then have "get_medicine_dosage env uid dosages_text (c, st) = answer env uid OnlyNumbersMsg c st"
    by (simp add: get_medicine_dosage_def)
  then show "fst (state_of (get_medicine_dosage env uid dosages_text (c, st))) = c"
    and "medicines (snd (state_of (get_medicine_dosage env uid dosages_text (c, st)))) = medicines st"
    by (simp_all add: answer_state)
qed

lemma dosage_valid_name:
  "dosage_valid env c \<Longrightarrow> dosage_valid env (fst (state_of (get_medicine_name env uid txt (c, st))))"
  by (simp add: get_medicine_name_def answer_state dosage_valid_def)

lemma dosage_valid_dosage:
  "dosage_valid env c \<Longrightarrow> dosage_valid env (fst (state_of (get_medicine_dosage env uid txt (c, st))))"
  by (simp add: get_medicine_dosage_def answer_state dosage_valid_def)

lemma dosage_valid_unit:
  "dosage_valid env c \<Longrightarrow> dosage_valid env (fst (state_of (get_dosage_unit env uid txt (c, st))))"
  by (simp add: get_dosage_unit_def answer_state dosage_valid_def)

lemma dosage_valid_quantity:
  "dosage_valid env c \<Longrightarrow> dosage_valid env (fst (state_of (get_medicine_quantity env uid txt (c, st))))"
  by (simp add: get_medicine_quantity_def answer_state dosage_valid_def)

lemma get_medicine_time_keeps_dosage:
  "medicine_dosage (fst (state_of (get_medicine_time env uid txt (c, st)))) = medicine_dosage c
   \<or> medicine_dosage (fst (state_of (get_medicine_time env uid txt (c, st)))) = None"
  by (auto simp: get_medicine_time_def answer_def send_message_def add_medicine_def Let_def clear_def
           split: option.splits outcome.splits)

lemma dosage_valid_time:
  "dosage_valid env c \<Longrightarrow> dosage_valid env (fst (state_of (get_medicine_time env uid txt (c, st))))"
  using get_medicine_time_keeps_dosage[of env uid "txt" c st]
  by (auto simp: dosage_valid_def)

lemma get_medicine_time_store:
  "medicines (snd (state_of (get_medicine_time env uid txt (c, st)))) = medicines st
   \<or> (\<exists>dos m. medicine_dosage c = Some dos
         \<and> length (split_strip dos) = length (split_strip txt)
         \<and> dosage m = dos \<and> reminder_time m = txt \<and> user_id m = uid
         \<and> medicines (snd (state_of (get_medicine_time env uid txt (c, st)))) = medicines st @ [m])"
  by (auto simp: get_medicine_time_def answer_def send_message_def add_medicine_def Let_def
           split: option.splits outcome.splits)

text \<open>
  C5, as the code has it. The doses \<open>0\<close> and \<open>-1\<close> are numbers for \<open>float\<close>, which is all
  that \<open>get_medicine_dosage\<close> asks: the dialogue goes through and the record is stored
  with these doses.
\<close>

theorem zero_and_negative_doses_accepted:
  "map (pyfloat moscow_env) (split_strip ''0, -1'') = [Some 0, Some (- 1)]
   \<and> add_dialogue moscow_env 7 ''Aspirin'' ''0, -1'' ''ml'' ''10'' ''8:00, 20:00''
        (new_chat, empty_store)
     = Done (clear new_chat,
             empty_store
               \<lparr>medicines :=
                  [\<lparr>medicine_id = 1, user_id = 7, name = Some ''Aspirin'', dosage = ''0, -1'',
                    dosage_unit = Some ''ml'', doses_quantity = Some 10,
                    reminder_time = ''8:00, 20:00'', remaining_quantity = Some 10\<rparr>],
                last_medicine_id := 1,
                outbox := [(7, AskDosageMsg), (7, ChooseUnitMsg), (7, AskQuantityMsg),
                           (7, AskTimesMsg),
                           (7, AddedMsg (Some ''Aspirin'') ''0, -1'' (Some ''ml'')
                                 ''8:00, 20:00'')]\<rparr>)"
  by code_simp

text \<open>
  C5, amended. A dose list with an item that is not a number is rejected by
  \<open>get_medicine_dosage\<close>: the chat stays as it was, in the same state and without the
  dose text, and no record is stored. The dose text that a chat holds has therefore
  always passed the check, none of the five handlers of the dialogue changes that, and
  every record that \<open>get_medicine_time\<close> stores has doses that are all numbers. Zero and
  negative numbers are among them.
\<close>

theorem non_numeric_doses_rejected:
  "(d \<in> set (split_strip dosages_text) \<and> pyfloat env d = None \<longrightarrow>
      fst (state_of (get_medicine_dosage env uid dosages_text (c, st))) = c
      \<and> medicines (snd (state_of (get_medicine_dosage env uid dosages_text (c, st))))
          = medicines st)
   \<and> (dosage_valid env c \<longrightarrow>
        dosage_valid env (fst (state_of (get_medicine_name env uid answer_text (c, st))))
        \<and> dosage_valid env (fst (state_of (get_medicine_dosage env uid answer_text (c, st))))
        \<and> dosage_valid env (fst (state_of (get_dosage_unit env uid answer_text (c, st))))
        \<and> dosage_valid env (fst (state_of (get_medicine_quantity env uid answer_text (c, st))))
        \<and> dosage_valid env (fst (state_of (get_medicine_time env uid answer_text (c, st))))
        \<and> (\<forall>m\<in>set (medicines (snd (state_of (get_medicine_time env uid answer_text (c, st))))).
              m \<in> set (medicines st)
              \<or> (\<forall>x\<in>set (split_strip (dosage m)). pyfloat env x \<noteq> None)))"
proof (intro conjI impI)
  assume "d \<in> set (split_strip dosages_text) \<and> pyfloat env d = None"
  then show "fst (state_of (get_medicine_dosage env uid dosages_text (c, st))) = c"
    and "medicines (snd (state_of (get_medicine_dosage env uid dosages_text (c, st))))
          = medicines st"
    using get_medicine_dosage_rejects[of d dosages_text env uid c st] by simp_all
next
  assume v: "dosage_valid env c"
  show "dosage_valid env (fst (state_of (get_medicine_name env uid answer_text (c, st))))"
    using v by (rule dosage_valid_name)
  show "dosage_valid env (fst (state_of (get_medicine_dosage env uid answer_text (c, st))))"
    using v by (rule dosage_valid_dosage)
  show "dosage_valid env (fst (state_of (get_dosage_unit env uid answer_text (c, st))))"
    using v by (rule dosage_valid_unit)
  show "dosage_valid env (fst (state_of (get_medicine_quantity env uid answer_text (c, st))))"
    using v by (rule dosage_valid_quantity)
  show "dosage_valid env (fst (state_of (get_medicine_time env uid answer_text (c, st))))"
    using v by (rule dosage_valid_time)
  show "\<forall>m\<in>set (medicines (snd (state_of (get_medicine_time env uid answer_text (c, st))))).
              m \<in> set (medicines st)
              \<or> (\<forall>x\<in>set (split_strip (dosage m)). pyfloat env x \<noteq> None)"
    using get_medicine_time_store[of env uid answer_text c st] v
    by (auto simp: dosage_valid_def all_floats_iff)
qed

theorem non_numeric_doses_rejected_witness:
  "(''abc'' \<in> set (split_strip ''1, abc'') \<and> pyfloat moscow_env ''abc'' = None)
   \<and> fst (state_of (get_medicine_dosage moscow_env 7 ''1, abc'' (new_chat, empty_store)))
       = new_chat
   \<and> medicines (snd (state_of (get_medicine_dosage moscow_env 7 ''1, abc''
                                   (new_chat, empty_store)))) = []
   \<and> dosage_valid moscow_env times_chat
   \<and> dosage_valid moscow_env
        (fst (state_of (get_medicine_dosage moscow_env 7 ''2'' (times_chat, empty_store))))
   \<and> map dosage (medicines (snd (state_of (get_medicine_time moscow_env 7 ''8:00, 20:00''
                                               (times_chat, empty_store))))) = [''1, 0.5'']
   \<and> list_all (\<lambda>m. list_all (\<lambda>x. pyfloat moscow_env x \<noteq> None) (split_strip (dosage m)))
         (medicines (snd (state_of (get_medicine_time moscow_env 7 ''8:00, 20:00''
                                      (times_chat, empty_store)))))"
proof -
  have h1: "''abc'' \<in> set (split_strip ''1, abc'') \<and> pyfloat moscow_env ''abc'' = None"
    by code_simp
  have h2: "dosage_valid moscow_env times_chat" by code_simp
  have e: "medicines empty_store = []" by (simp add: empty_store_def)
  have r: "map dosage (medicines (snd (state_of (get_medicine_time moscow_env 7 ''8:00, 20:00''
                                               (times_chat, empty_store))))) = [''1, 0.5'']"
    by code_simp
  note a = non_numeric_doses_rejected[of "''abc''" "''1, abc''" moscow_env 7 new_chat empty_store
             "''2''"]
  note b = non_numeric_doses_rejected[of "''abc''" "''1, abc''" moscow_env 7 times_chat empty_store
             "''2''"]
  note c = non_numeric_doses_rejected[of "''abc''" "''1, abc''" moscow_env 7 times_chat empty_store
             "''8:00, 20:00''"]
  from a h1 have a': "fst (state_of (get_medicine_dosage moscow_env 7 ''1, abc''
                                      (new_chat, empty_store))) = new_chat
     \<and> medicines (snd (state_of (get_medicine_dosage moscow_env 7 ''1, abc''
                                   (new_chat, empty_store)))) = []"
    unfolding e by blast
  from b h2 have b': "dosage_valid moscow_env
        (fst (state_of (get_medicine_dosage moscow_env 7 ''2'' (times_chat, empty_store))))"
    by blast
  from c h2 have c': "\<forall>m\<in>set (medicines (snd (state_of (get_medicine_time moscow_env 7
                          ''8:00, 20:00'' (times_chat, empty_store))))).
         \<forall>x\<in>set (split_strip (dosage m)). pyfloat moscow_env x \<noteq> None"
    unfolding e by simp
  from c' have c'': "list_all (\<lambda>m. list_all (\<lambda>x. pyfloat moscow_env x \<noteq> None)
                                    (split_strip (dosage m)))
         (medicines (snd (state_of (get_medicine_time moscow_env 7 ''8:00, 20:00''
                                      (times_chat, empty_store)))))"
    by (simp add: list_all_iff)
  from h1 a' h2 b' r c'' show ?thesis by blast
qed

section \<open>The two lists of a record\<close>

lemma lists_agree_kept:
  assumes "kept st st'" and "lists_agree st"
  shows "lists_agree st'"
  unfolding lists_agree_def
proof
  fix m' assume "m' \<in> set (medicines st')"
  with assms(1) have "schedule_of m' \<in> schedule_of ` set (medicines st)"
    by (auto simp: kept_def)
  then obtain m where m: "m \<in> set (medicines st)" and "schedule_of m = schedule_of m'" by auto
  then have "dosage m = dosage m'" and "reminder_time m = reminder_time m'"
    by (simp_all add: schedule_of_def)
  with assms(2) m
  show "length (split_strip (dosage m')) = length (split_strip (reminder_time m'))"
    by (auto simp: lists_agree_def)
qed

lemma kept_delete_by_name:
  "kept st (state_of (delete_medicine_by_name_and_user env uid nm st))"
  by (auto simp: delete_medicine_by_name_and_user_def kept_def)

lemma lists_agree_created:
  assumes "lists_agree st"
  shows "lists_agree (snd (state_of (get_medicine_time env uid answer_text (c, st))))"
  using get_medicine_time_store[of env uid answer_text c st] assms
  by (auto simp: lists_agree_def)

lemma mismatch_rejected:
  assumes "medicine_dosage c = Some dos"
    and "length (split_strip dos) \<noteq> length (split_strip answer_text)"
  shows "medicines (snd (state_of (get_medicine_time env uid answer_text (c, st)))) = medicines st"
  using get_medicine_time_store[of env uid answer_text c st] assms by auto

text \<open>
  C6. A record that \<open>get_medicine_time\<close> stores has as many doses as reminder times, and
  an answer whose count of times differs from the count of doses stores nothing.
  Afterwards the dispatch of an event, a sweep, any run of the scheduler loop, and the
  store's decrement and deletions keep the owner and both lists of every record that
  they leave in the store; so the two counts are equal for every record, at all times.
\<close>

theorem dose_and_time_lists_agree:
  "(lists_agree st \<longrightarrow>
      lists_agree (snd (state_of (get_medicine_time env uid answer_text (c, st)))))
   \<and> (medicine_dosage c = Some dos
        \<and> length (split_strip dos) \<noteq> length (split_strip answer_text) \<longrightarrow>
      medicines (snd (state_of (get_medicine_time env uid answer_text (c, st)))) = medicines st)
   \<and> kept st (send_reminder env uid mid nm d unit st)
   \<and> kept st (state_of (sweep env now st))
   \<and> kept st (state_of (scheduler_setup passes st))
   \<and> kept st (state_of (decrement_medicine_quantity env mid v st))
   \<and> kept st (state_of (delete_medicine env mid st))
   \<and> kept st (state_of (delete_medicine_by_name_and_user env uid medicine_nm st))
   \<and> (lists_agree st \<longrightarrow>
        lists_agree (send_reminder env uid mid nm d unit st)
        \<and> lists_agree (state_of (sweep env now st))
        \<and> lists_agree (state_of (scheduler_setup passes st))
        \<and> lists_agree (state_of (decrement_medicine_quantity env mid v st))
        \<and> lists_agree (state_of (delete_medicine env mid st))
        \<and> lists_agree (state_of (delete_medicine_by_name_and_user env uid medicine_nm st)))"
proof (intro conjI impI)
  assume "lists_agree st"
  then show "lists_agree (snd (state_of (get_medicine_time env uid answer_text (c, st))))"
    by (rule lists_agree_created)
next
  assume "medicine_dosage c = Some dos
        \<and> length (split_strip dos) \<noteq> length (split_strip answer_text)"
  then show "medicines (snd (state_of (get_medicine_time env uid answer_text (c, st))))
               = medicines st"
    using mismatch_rejected by blast
next
  show "kept st (send_reminder env uid mid nm d unit st)" by (rule kept_send_reminder)
  show "kept st (state_of (sweep env now st))" by (rule kept_sweep)
  show "kept st (state_of (scheduler_setup passes st))" by (rule kept_scheduler_setup)
  show "kept st (state_of (decrement_medicine_quantity env mid v st))" by (rule kept_decrement)
  show "kept st (state_of (delete_medicine env mid st))" by (rule kept_delete)
  show "kept st (state_of (delete_medicine_by_name_and_user env uid medicine_nm st))"
    by (rule kept_delete_by_name)
next
  assume a: "lists_agree st"
  show "lists_agree (send_reminder env uid mid nm d unit st)"
    by (rule lists_agree_kept[OF kept_send_reminder a])
  show "lists_agree (state_of (sweep env now st))"
    by (rule lists_agree_kept[OF kept_sweep a])
  show "lists_agree (state_of (scheduler_setup passes st))"
    by (rule lists_agree_kept[OF kept_scheduler_setup a])
  show "lists_agree (state_of (decrement_medicine_quantity env mid v st))"
    by (rule lists_agree_kept[OF kept_decrement a])
  show "lists_agree (state_of (delete_medicine env mid st))"
    by (rule lists_agree_kept[OF kept_delete a])
  show "lists_agree (state_of (delete_medicine_by_name_and_user env uid medicine_nm st))"
    by (rule lists_agree_kept[OF kept_delete_by_name a])
qed

theorem dose_and_time_lists_agree_witness:
  "lists_agree aspirin_world
   \<and> lists_agree (snd (state_of (get_medicine_time moscow_env 7 ''8:00, 20:00''
                                    (times_chat, aspirin_world))))
   \<and> map reminder_time (medicines (snd (state_of (get_medicine_time moscow_env 7 ''8:00, 20:00''
                                    (times_chat, aspirin_world))))) = [''08:00'', ''8:00, 20:00'']
   \<and> (medicine_dosage times_chat = Some ''1, 0.5''
        \<and> length (split_strip ''1, 0.5'') \<noteq> length (split_strip ''8:00''))
   \<and> medicines (snd (state_of (get_medicine_time moscow_env 7 ''8:00''
                                   (times_chat, aspirin_world)))) = [aspirin]
   \<and> lists_agree (state_of (scheduler_setup [(moscow_env, 18000), (moscow_env, 104400)]
                               aspirin_world))"
proof -
  have h1: "lists_agree aspirin_world" by code_simp
  have h2: "medicine_dosage times_chat = Some ''1, 0.5''
        \<and> length (split_strip ''1, 0.5'') \<noteq> length (split_strip ''8:00'')"
    by code_simp
  have m: "medicines aspirin_world = [aspirin]" by (simp add: aspirin_world_def)
  have r: "map reminder_time (medicines (snd (state_of (get_medicine_time moscow_env 7
             ''8:00, 20:00'' (times_chat, aspirin_world))))) = [''08:00'', ''8:00, 20:00'']"
    by code_simp
  note a = dose_and_time_lists_agree[of aspirin_world moscow_env 7 "''8:00, 20:00''" times_chat
             "''1, 0.5''" 1 "Some ''Aspirin''" "''1''" "Some ''ml''" 18000
             "[(moscow_env, 18000), (moscow_env, 104400)]" 1 "''Aspirin''"]
  note b = dose_and_time_lists_agree[of aspirin_world moscow_env 7 "''8:00''" times_chat
             "''1, 0.5''" 1 "Some ''Aspirin''" "''1''" "Some ''ml''" 18000
             "[(moscow_env, 18000), (moscow_env, 104400)]" 1 "''Aspirin''"]
  from a h1 have a1: "lists_agree (snd (state_of (get_medicine_time moscow_env 7 ''8:00, 20:00''
                                    (times_chat, aspirin_world))))" by blast
  from a h1 have a2: "lists_agree (state_of (scheduler_setup
                        [(moscow_env, 18000), (moscow_env, 104400)] aspirin_world))" by blast
  from b h2 have b1: "medicines (snd (state_of (get_medicine_time moscow_env 7 ''8:00''
                                   (times_chat, aspirin_world)))) = [aspirin]"
    unfolding m by blast
  from h1 a1 r h2 b1 a2 show ?thesis by blast
qed

section \<open>The dose of a due event\<close>




















end
